theory Spec2Isabelle
  imports Main
begin

section \<open>The attention RNN keyword-spotting model builder (kws\_streaming/models/att\_rnn.py)\<close>

text \<open>
  The module has two functions. \<open>model_parameters\<close> registers eleven hyperparameters on
  an argument parser; \<open>model\<close> reads a flags object and wires layer objects of the
  deep-learning library into one graph. The library (\<open>tf.keras\<close>), the speech-feature
  layer (\<open>kws_streaming.layers.speech_features\<close>) and the helper \<open>parse\<close>
  (\<open>kws_streaming.models.utils\<close>) are collaborators whose code is not part of the
  module: \<open>parse\<close> and the library are parameters of the embedding, the speech-feature
  layer is one more layer that the library is asked to call, and each of them may raise.
\<close>

subsection \<open>Python values and exceptions\<close>

text \<open>
  A float is kept as mantissa and binary exponent (\<open>PyFloat m e\<close> stands for
  \<open>m * 2 ^ e\<close>); the module performs no arithmetic on floats, it only passes them on.
\<close>

datatype pyval =
    PyNone
  | PyBool bool
  | PyInt int
  | PyFloat int int
  | PyStr string
  | PyTuple "pyval list"

text \<open>
  \<open>ValueError\<close> carries the two arguments the module gives it. \<open>Raised\<close> is an
  exception that comes out of a collaborator (\<open>parse\<close> or a layer of the library).
\<close>

datatype error =
    KeyError string
  | ValueError string string
  | IndexError
  | TypeError
  | Raised string

definition and_then :: "error + 'a \<Rightarrow> ('a \<Rightarrow> error + 'b) \<Rightarrow> error + 'b" where
  "and_then m f = (case m of Inl e \<Rightarrow> Inl e | Inr x \<Rightarrow> f x)"

text \<open>An expression statement: the value is computed and dropped.\<close>

definition expr_stmt :: "'a \<Rightarrow> 'b \<Rightarrow> 'b" where
  "expr_stmt v rest = rest"

subsection \<open>The argument parser and \<open>model_parameters\<close>\<close>

datatype pytype = TStr | TInt | TFloat

text \<open>
  One \<open>add_argument\<close> call: the option string, and the keywords \<open>type\<close>,
  \<open>default\<close> and \<open>help\<close>. \<open>arg_default\<close> is \<open>None\<close> when the call gives no
  \<open>default\<close> keyword. The parser is the list of the registrations it has received;
  what the argument-parsing library does when an option string is registered a second
  time is outside the module and is not modelled.
\<close>

record argument =
  arg_name :: string
  arg_type :: pytype
  arg_default :: "pyval option"
  arg_help :: string

type_synonym parser = "argument list"

definition add_argument ::
  "string \<Rightarrow> pytype \<Rightarrow> pyval option \<Rightarrow> string \<Rightarrow> parser \<Rightarrow> parser" where
  "add_argument n t d h parser_nn =
     parser_nn @ [\<lparr>arg_name = n, arg_type = t, arg_default = d, arg_help = h\<rparr>]"

text \<open>
  A string literal of HOL cannot hold an apostrophe; \<open>quoted s\<close> is \<open>s\<close> between two
  apostrophes, as in the defaults of \<open>--cnn_act\<close> and \<open>--act2\<close>.
\<close>

definition quoted :: "string \<Rightarrow> string" where
  "quoted s = CHR 0x27 # s @ [CHR 0x27]"

text \<open>
  The eleven calls of the source, in its order; each one acts on the parser that the
  calls before it have left.
\<close>

definition model_parameters :: "parser \<Rightarrow> parser" where
  "model_parameters parser_nn =
     foldl (\<lambda>p call. call p) parser_nn
       [add_argument ''--cnn_filters'' TStr (Some (PyStr ''10,1''))
          ''Number of output filters in the convolution layers'',
        add_argument ''--cnn_kernel_size'' TStr (Some (PyStr ''(5,1),(5,1)''))
          ''Heights and widths of the 2D convolution window'',
        add_argument ''--cnn_act'' TStr
          (Some (PyStr (quoted ''relu'' @ '','' @ quoted ''relu'')))
          ''Activation function in the convolution layers'',
        add_argument ''--cnn_dilation_rate'' TStr (Some (PyStr ''(1,1),(1,1)''))
          ''Dilation rate to use for dilated convolutions'',
        add_argument ''--cnn_strides'' TStr (Some (PyStr ''(1,1),(1,1)''))
          ''Strides of the convolution layers along the height and width'',
        add_argument ''--rnn_layers'' TInt (Some (PyInt 2))
          ''number of RNN layers (each RNN is wrapped by Bidirectional)'',
        add_argument ''--rnn_type'' TStr (Some (PyStr ''lstm''))
          ''RNN type: it can be rnn or lstm'',
        add_argument ''--rnn_units'' TInt (Some (PyInt 64))
          ''units number in RNN cell'',
        add_argument ''--dropout1'' TFloat (Some (PyFloat 1 (- 1)))
          ''Percentage of data dropped'',
        add_argument ''--units2'' TStr (Some (PyStr ''64,32''))
          ''Number of units in the last set of hidden layers'',
        add_argument ''--act2'' TStr
          (Some (PyStr (quoted ''relu'' @ '','' @ quoted ''linear'')))
          ''Activation function of the last set of hidden layers'']"

subsection \<open>Flags\<close>

text \<open>
  The fields of \<open>flags\<close> that \<open>model\<close> reads. The seven fields given to \<open>parse\<close>
  are strings, \<open>rnn_type\<close> is the key of a dictionary lookup, \<open>rnn_layers\<close> is the
  argument of \<open>range\<close>; every other field is handed to a layer as it is.
\<close>

record flags =
  rnn_type :: string
  desired_samples :: pyval
  batch_size :: pyval
  window_size_ms :: pyval
  window_stride_ms :: pyval
  sample_rate :: pyval
  use_tf_fft :: pyval
  preemph :: pyval
  window_type :: pyval
  mel_num_bins :: pyval
  mel_lower_edge_hertz :: pyval
  mel_upper_edge_hertz :: pyval
  mel_non_zero_only :: pyval
  fft_magnitude_squared :: pyval
  dct_num_features :: pyval
  cnn_filters :: string
  cnn_kernel_size :: string
  cnn_act :: string
  cnn_dilation_rate :: string
  cnn_strides :: string
  rnn_layers :: int
  rnn_units :: pyval
  dropout1 :: pyval
  units2 :: string
  act2 :: string
  label_count :: pyval

subsection \<open>Layers, tensors and the graph under construction\<close>

datatype rnn_class = LSTM | GRU

text \<open>\<open>RNN c units return_sequences unroll\<close>: the recurrent layer given to Bidirectional.\<close>

datatype rnn_layer = RNN rnn_class pyval bool bool

text \<open>
  The layer objects the module constructs, with the arguments it gives them:
  \<^item> \<open>Input shape batch_size\<close>;
  \<^item> \<open>SpeechFeatures\<close> with, in this order, frame\_size\_ms, frame\_step\_ms, sample\_rate,
    use\_tf\_fft, preemph, window\_type, mel\_num\_bins, mel\_lower\_edge\_hertz,
    mel\_upper\_edge\_hertz, mel\_non\_zero\_only, fft\_magnitude\_squared, dct\_num\_features;
  \<^item> \<open>ExpandDims\<close>, the backend call \<open>expand_dims(net)\<close>;
  \<^item> \<open>Conv2D filters kernel_size activation dilation_rate strides padding\<close>;
  \<^item> \<open>Reshape target_shape\<close>;
  \<^item> \<open>GetItem middle\<close>, the subscript \<open>net[:, middle, :]\<close>;
  \<^item> \<open>Dense units activation\<close>, the activation being \<open>PyNone\<close> when none is given;
  \<^item> \<open>Dot axes\<close>, \<open>Softmax name\<close>, \<open>Dropout rate\<close>.
\<close>

datatype layer =
    Input pyval pyval
  | SpeechFeatures pyval pyval pyval pyval pyval pyval pyval pyval pyval pyval pyval pyval
  | ExpandDims
  | Conv2D pyval pyval pyval pyval pyval string
  | BatchNormalization
  | Reshape "int list"
  | Bidirectional rnn_layer
  | GetItem int
  | Dense pyval pyval
  | Dot "int list"
  | Softmax string
  | Dropout pyval

text \<open>A static shape: each dimension is an integer or \<open>None\<close>.\<close>

type_synonym tensor_shape = "int option list"

text \<open>
  A tensor is the output of one node of the graph: \<open>producer\<close> is the index of that node
  and \<open>shape\<close> the static shape the library gave it. A node is a layer applied to the
  outputs of the nodes \<open>inbound\<close>.
\<close>

record tensor =
  producer :: nat
  shape :: tensor_shape

record node =
  layer :: layer
  inbound :: "nat list"
  output_shape :: tensor_shape

type_synonym graph = "node list"

text \<open>
  The library decides whether a layer accepts its inputs and what shape it returns:
  \<open>lib l shapes\<close> is \<open>Inl msg\<close> when calling layer \<open>l\<close> on inputs of these shapes
  raises. Calling a layer adds one node to the graph and returns its output tensor.
\<close>

type_synonym library = "layer \<Rightarrow> tensor_shape list \<Rightarrow> string + tensor_shape"

definition from_collaborator :: "string + 'a \<Rightarrow> error + 'a" where
  "from_collaborator r = (case r of Inl msg \<Rightarrow> Inl (Raised msg) | Inr x \<Rightarrow> Inr x)"

definition apply_layer ::
  "library \<Rightarrow> layer \<Rightarrow> tensor list \<Rightarrow> graph \<Rightarrow> error + (tensor \<times> graph)" where
  "apply_layer lib l ins g =
     and_then (from_collaborator (lib l (map shape ins))) (\<lambda>s.
       Inr (\<lparr>producer = length g, shape = s\<rparr>,
            g @ [\<lparr>layer = l, inbound = map producer ins, output_shape = s\<rparr>]))"

subsection \<open>Reading a static shape\<close>

text \<open>
  \<open>s[i]\<close> with Python's negative indices; out of range is an IndexError. Multiplying
  or dividing a dimension that is \<open>None\<close> is a TypeError.
\<close>

definition shape_at :: "tensor_shape \<Rightarrow> int \<Rightarrow> error + int option" where
  "shape_at s i =
     (let n = int (length s); j = (if i < 0 then n + i else i)
      in if 0 \<le> j \<and> j < n then Inr (s ! nat j) else Inl IndexError)"

definition dim_mul :: "int option \<Rightarrow> int option \<Rightarrow> error + int" where
  "dim_mul a b =
     (case a of None \<Rightarrow> Inl TypeError
      | Some x \<Rightarrow> (case b of None \<Rightarrow> Inl TypeError | Some y \<Rightarrow> Inr (x * y)))"

definition dim_floordiv :: "int option \<Rightarrow> int \<Rightarrow> error + int" where
  "dim_floordiv a k = (case a of None \<Rightarrow> Inl TypeError | Some x \<Rightarrow> Inr (x div k))"

definition dim_value :: "int option \<Rightarrow> pyval" where
  "dim_value a = (case a of None \<Rightarrow> PyNone | Some x \<Rightarrow> PyInt x)"

subsection \<open>The model builder\<close>

text \<open>
  The result of \<open>tf.keras.Model(input_audio, net)\<close>: the input tensor, the output tensor
  and the nodes built between them.
\<close>

record keras_model =
  inputs :: tensor
  outputs :: tensor
  nodes :: graph

text \<open>
  The first loop: one Conv2D and one BatchNormalization for each tuple that \<open>zip\<close>
  yields.
\<close>

fun cnn_loop ::
  "library \<Rightarrow> (pyval \<times> pyval \<times> pyval \<times> pyval \<times> pyval) list \<Rightarrow> tensor \<Rightarrow> graph
     \<Rightarrow> error + (tensor \<times> graph)" where
  "cnn_loop lib [] net g = Inr (net, g)"
| "cnn_loop lib ((filters, kernel_size, activation, dilation_rate, strides) # rest) net g =
     (case apply_layer lib
             (Conv2D filters kernel_size activation dilation_rate strides ''same'') [net] g of
        Inl e \<Rightarrow> Inl e
      | Inr (net1, g1) \<Rightarrow>
          (case apply_layer lib BatchNormalization [net1] g1 of
             Inl e \<Rightarrow> Inl e
           | Inr (net2, g2) \<Rightarrow> cnn_loop lib rest net2 g2))"

text \<open>
  The second loop, \<open>for _ in range(flags.rnn_layers)\<close>: the same Bidirectional layer
  description is built and applied once per iteration.
\<close>

fun rnn_loop ::
  "library \<Rightarrow> layer \<Rightarrow> nat \<Rightarrow> tensor \<Rightarrow> graph \<Rightarrow> error + (tensor \<times> graph)" where
  "rnn_loop lib l 0 net g = Inr (net, g)"
| "rnn_loop lib l (Suc n) net g =
     (case apply_layer lib l [net] g of
        Inl e \<Rightarrow> Inl e
      | Inr (net1, g1) \<Rightarrow> rnn_loop lib l n net1 g1)"

text \<open>The third loop: one Dense layer for each pair that \<open>zip\<close> yields.\<close>

fun dense_loop ::
  "library \<Rightarrow> (pyval \<times> pyval) list \<Rightarrow> tensor \<Rightarrow> graph \<Rightarrow> error + (tensor \<times> graph)" where
  "dense_loop lib [] net g = Inr (net, g)"
| "dense_loop lib ((units, activation) # rest) net g =
     (case apply_layer lib (Dense units activation) [net] g of
        Inl e \<Rightarrow> Inl e
      | Inr (net1, g1) \<Rightarrow> dense_loop lib rest net1 g1)"

definition rnn_types :: "(string \<times> rnn_class) list" where
  "rnn_types = [(''lstm'', LSTM), (''gru'', GRU)]"

text \<open>
  \<open>model parse lib flags\<close>. The test on \<open>rnn_type\<close> builds a ValueError and drops it
  (the source has no \<open>raise\<close> there), so the lookup that follows is what fails on an
  unknown type. The five \<open>parse\<close> calls of the first \<open>zip\<close> are evaluated in order
  before the loop starts, \<open>range\<close> of a negative number is empty, and \<open>//\<close> is the
  floor division that \<open>div\<close> is on \<open>int\<close>.
\<close>

definition model ::
  "(string \<Rightarrow> string + pyval list) \<Rightarrow> library \<Rightarrow> 'a flags_scheme \<Rightarrow> error + keras_model" where
  "model parse lib flags =
    expr_stmt
      (if map_of rnn_types (rnn_type flags) = None
       then Some (ValueError ''not supported RNN type '' (rnn_type flags)) else None)
    (case map_of rnn_types (rnn_type flags) of
       None \<Rightarrow> Inl (KeyError (rnn_type flags))
     | Some rnn \<Rightarrow>
    and_then (apply_layer lib
                (Input (PyTuple [desired_samples flags]) (batch_size flags)) [] [])
      (\<lambda>(input_audio, g0).
    and_then (apply_layer lib
                (SpeechFeatures (window_size_ms flags) (window_stride_ms flags)
                   (sample_rate flags) (use_tf_fft flags) (preemph flags) (window_type flags)
                   (mel_num_bins flags) (mel_lower_edge_hertz flags)
                   (mel_upper_edge_hertz flags) (mel_non_zero_only flags)
                   (fft_magnitude_squared flags) (dct_num_features flags))
                [input_audio] g0)
      (\<lambda>(net1, g1).
    and_then (apply_layer lib ExpandDims [net1] g1) (\<lambda>(net2, g2).
    and_then (from_collaborator (parse (cnn_filters flags))) (\<lambda>filters.
    and_then (from_collaborator (parse (cnn_kernel_size flags))) (\<lambda>kernel_sizes.
    and_then (from_collaborator (parse (cnn_act flags))) (\<lambda>activations.
    and_then (from_collaborator (parse (cnn_dilation_rate flags))) (\<lambda>dilation_rates.
    and_then (from_collaborator (parse (cnn_strides flags))) (\<lambda>strides.
    and_then (cnn_loop lib
                (zip filters (zip kernel_sizes (zip activations (zip dilation_rates strides))))
                net2 g2)
      (\<lambda>(net3, g3).
    and_then (shape_at (shape net3) 2) (\<lambda>shape2.
    and_then (shape_at (shape net3) 3) (\<lambda>shape3.
    and_then (dim_mul shape2 shape3) (\<lambda>features.
    and_then (apply_layer lib (Reshape [- 1, features]) [net3] g3) (\<lambda>(net4, g4).
    and_then (rnn_loop lib (Bidirectional (RNN rnn (rnn_units flags) True True))
                (nat (rnn_layers flags)) net4 g4)
      (\<lambda>(net5, g5).
    and_then (shape_at (shape net5) (- 1)) (\<lambda>feature_dim.
    and_then (shape_at (shape net5) 1) (\<lambda>time_length.
    and_then (dim_floordiv time_length 2) (\<lambda>middle.
    and_then (apply_layer lib (GetItem middle) [net5] g5) (\<lambda>(mid_feature, g6).
    and_then (apply_layer lib (Dense (dim_value feature_dim) PyNone) [mid_feature] g6)
      (\<lambda>(query, g7).
    and_then (apply_layer lib (Dot [1, 2]) [query, net5] g7) (\<lambda>(att_weights1, g8).
    and_then (apply_layer lib (Softmax ''attSoftmax'') [att_weights1] g8)
      (\<lambda>(att_weights2, g9).
    and_then (apply_layer lib (Dot [1, 1]) [att_weights2, net5] g9) (\<lambda>(net6, g10).
    and_then (apply_layer lib (Dropout (dropout1 flags)) [net6] g10) (\<lambda>(net7, g11).
    and_then (from_collaborator (parse (units2 flags))) (\<lambda>units.
    and_then (from_collaborator (parse (act2 flags))) (\<lambda>activations2.
    and_then (dense_loop lib (zip units activations2) net7 g11) (\<lambda>(net8, g12).
    and_then (apply_layer lib (Dense (label_count flags) PyNone) [net8] g12)
      (\<lambda>(net9, g13).
    Inr \<lparr>inputs = input_audio, outputs = net9, nodes = g13\<rparr>
    ))))))))))))))))))))))))))))"

subsection \<open>One set of collaborators and flags, for the examples\<close>

text \<open>
  The examples below run \<open>model\<close> on concrete inputs, so they need one \<open>parse\<close>, one
  library and one flags object. \<open>example_parse\<close> is a table of a few hyperparameter
  strings with the lists they stand for; any other string raises. \<open>example_lib\<close> gives
  shapes in the style of the library (the feature layer returning 49 frames of 20
  features) and raises on every call it has no rule for.
\<close>

definition example_parse :: "string \<Rightarrow> string + pyval list" where
  "example_parse text =
     (case map_of
        [(''10,1'', [PyInt 10, PyInt 1]),
         (''10,1,7'', [PyInt 10, PyInt 1, PyInt 7]),
         (''(5,1),(5,1)'', [PyTuple [PyInt 5, PyInt 1], PyTuple [PyInt 5, PyInt 1]]),
         (''(1,1),(1,1)'', [PyTuple [PyInt 1, PyInt 1], PyTuple [PyInt 1, PyInt 1]]),
         (quoted ''relu'' @ '','' @ quoted ''relu'', [PyStr ''relu'', PyStr ''relu'']),
         (quoted ''relu'' @ '','' @ quoted ''linear'', [PyStr ''relu'', PyStr ''linear'']),
         (''64,32'', [PyInt 64, PyInt 32]),
         (''64,32,16'', [PyInt 64, PyInt 32, PyInt 16]),
         ([], [])] text of
        None \<Rightarrow> Inl ''malformed node or string''
      | Some xs \<Rightarrow> Inr xs)"

text \<open>
  \<open>example_parse_cut\<close> is \<open>example_parse\<close> with the two three-element lists cut to
  their first two elements.
\<close>

definition example_parse_cut :: "string \<Rightarrow> string + pyval list" where
  "example_parse_cut text =
     (if text = ''10,1,7'' then Inr [PyInt 10, PyInt 1]
      else if text = ''64,32,16'' then Inr [PyInt 64, PyInt 32]
      else example_parse text)"

definition example_lib :: library where
  "example_lib l shapes =
     (case (l, shapes) of
        (Input (PyTuple [PyInt n]) (PyInt b), []) \<Rightarrow> Inr [Some b, Some n]
      | (SpeechFeatures _ _ _ _ _ _ _ _ _ _ _ _, [[b, _]]) \<Rightarrow> Inr [b, Some 49, Some 20]
      | (ExpandDims, [s]) \<Rightarrow> Inr (s @ [Some 1])
      | (Conv2D (PyInt n) _ _ _ _ _, [[b, t, f, _]]) \<Rightarrow> Inr [b, t, f, Some n]
      | (BatchNormalization, [s]) \<Rightarrow> Inr s
      | (Reshape [_, n], [[b, Some t, Some f, Some c]]) \<Rightarrow>
          Inr [b, Some (t * f * c div n), Some n]
      | (Bidirectional (RNN _ (PyInt u) True _), [[b, t, _]]) \<Rightarrow> Inr [b, t, Some (2 * u)]
      | (GetItem _, [[b, _, f]]) \<Rightarrow> Inr [b, f]
      | (Dense (PyInt u) _, [[b, _]]) \<Rightarrow> Inr [b, Some u]
      | (Dot axes, [[b, _], [_, t, f]]) \<Rightarrow>
          (if axes = [1, 2] then Inr [b, t]
           else if axes = [1, 1] then Inr [b, f]
           else Inl ''incompatible layer call'')
      | (Softmax _, [s]) \<Rightarrow> Inr s
      | (Dropout _, [s]) \<Rightarrow> Inr s
      | _ \<Rightarrow> Inl ''incompatible layer call'')"

definition example_flags :: flags where
  "example_flags =
     \<lparr>rnn_type = ''lstm'',
      desired_samples = PyInt 16000,
      batch_size = PyInt 100,
      window_size_ms = PyFloat 40 0,
      window_stride_ms = PyFloat 20 0,
      sample_rate = PyInt 16000,
      use_tf_fft = PyBool False,
      preemph = PyFloat 0 0,
      window_type = PyStr ''hann'',
      mel_num_bins = PyInt 40,
      mel_lower_edge_hertz = PyFloat 20 0,
      mel_upper_edge_hertz = PyFloat 7000 0,
      mel_non_zero_only = PyInt 1,
      fft_magnitude_squared = PyBool False,
      dct_num_features = PyInt 20,
      cnn_filters = ''10,1'',
      cnn_kernel_size = ''(5,1),(5,1)'',
      cnn_act = quoted ''relu'' @ '','' @ quoted ''relu'',
      cnn_dilation_rate = ''(1,1),(1,1)'',
      cnn_strides = ''(1,1),(1,1)'',
      rnn_layers = 2,
      rnn_units = PyInt 64,
      dropout1 = PyFloat 1 (- 1),
      units2 = ''64,32'',
      act2 = quoted ''relu'' @ '','' @ quoted ''linear'',
      label_count = PyInt 12\<rparr>"

subsection \<open>Parsing an empty command line\<close>

text \<open>
  The attribute name of a registration is its option string without the leading dashes,
  inner dashes turned into underscores. Parsing with no command-line arguments gives
  each attribute the default of the first registration that has this attribute name,
  and \<open>PyNone\<close> when that registration has no default. (The library converts a string
  default with the registration's type; for the type \<open>str\<close> that changes nothing.)
\<close>

definition dest :: "argument \<Rightarrow> string" where
  "dest a =
     map (\<lambda>c. if c = CHR ''-'' then CHR ''_'' else c)
       (dropWhile (\<lambda>c. c = CHR ''-'') (arg_name a))"



subsection \<open>Describing a graph\<close>

text \<open>The layer of a node with the nodes that feed it, the static shape left out.\<close>

definition skeleton :: "node \<Rightarrow> layer \<times> nat list" where
  "skeleton nd = (layer nd, inbound nd)"

text \<open>
  \<open>chain p ls\<close>: the layers \<open>ls\<close> one after the other, the first one fed by node \<open>p\<close>
  and each next one by the node before it (they sit at \<open>p + 1\<close>, \<open>p + 2\<close>, ...).
\<close>

fun chain :: "nat \<Rightarrow> layer list \<Rightarrow> (layer \<times> nat list) list" where
  "chain p [] = []"
| "chain p (l # ls) = (l, [p]) # chain (Suc p) ls"

definition conv_stage :: "pyval \<times> pyval \<times> pyval \<times> pyval \<times> pyval \<Rightarrow> layer list" where
  "conv_stage st =
     (case st of (filters, kernel_size, activation, dilation_rate, strides) \<Rightarrow>
        [Conv2D filters kernel_size activation dilation_rate strides ''same'',
         BatchNormalization])"

definition dense_layer :: "pyval \<times> pyval \<Rightarrow> layer" where
  "dense_layer ua = (case ua of (units, activation) \<Rightarrow> Dense units activation)"

text \<open>
  The attention pooling over the output of node \<open>r\<close>: the five nodes \<open>r + 1\<close> to
  \<open>r + 5\<close>. The subscript takes timestep \<open>middle\<close> of node \<open>r\<close>, the Dense layer of
  \<open>feature_dim\<close> units projects it to the query, the first Dot layer multiplies the
  query with node \<open>r\<close> along the feature axes (axis 1 of the query, axis 2 of node
  \<open>r\<close>), Softmax normalises the result, and the second Dot layer sums node \<open>r\<close> along
  the time axis (axis 1 of both) with these weights.
\<close>

definition attention_head :: "nat \<Rightarrow> int \<Rightarrow> pyval \<Rightarrow> (layer \<times> nat list) list" where
  "attention_head r middle feature_dim =
     [(GetItem middle, [r]),
      (Dense feature_dim PyNone, [r + 1]),
      (Dot [1, 2], [r + 2, r]),
      (Softmax ''attSoftmax'', [r + 3]),
      (Dot [1, 1], [r + 4, r])]"

text \<open>
  The architecture as the specification states it, in its order: the audio input, the
  speech features, the convolutional front-end (a Conv2D and a BatchNormalization per
  stage), the reshape, the Bidirectional recurrent layers, the attention head, dropout,
  the final dense layers and the last Dense layer of \<open>label_count\<close> units. The
  recurrent stack ends at node \<open>r\<close>.
\<close>

definition stated_architecture ::
  "'a flags_scheme \<Rightarrow> rnn_class \<Rightarrow> (pyval \<times> pyval \<times> pyval \<times> pyval \<times> pyval) list \<Rightarrow> int
     \<Rightarrow> int \<Rightarrow> pyval \<Rightarrow> (pyval \<times> pyval) list \<Rightarrow> (layer \<times> nat list) list" where
  "stated_architecture flags rnn stages features middle feature_dim finals =
     (let r = 3 + 2 * length stages + nat (rnn_layers flags) in
      (Input (PyTuple [desired_samples flags]) (batch_size flags), [])
      # chain 0
          ([SpeechFeatures (window_size_ms flags) (window_stride_ms flags)
              (sample_rate flags) (use_tf_fft flags) (preemph flags) (window_type flags)
              (mel_num_bins flags) (mel_lower_edge_hertz flags)
              (mel_upper_edge_hertz flags) (mel_non_zero_only flags)
              (fft_magnitude_squared flags) (dct_num_features flags),
            ExpandDims]
           @ concat (map conv_stage stages)
           @ [Reshape [- 1, features]]
           @ replicate (nat (rnn_layers flags))
               (Bidirectional (RNN rnn (rnn_units flags) True True)))
      @ attention_head r middle feature_dim
      @ chain (r + 5)
          ([Dropout (dropout1 flags)] @ map dense_layer finals
           @ [Dense (label_count flags) PyNone]))"

text \<open>
  \<open>edges g\<close> has a pair \<open>(j, i)\<close> when the output of node \<open>j\<close> is an input of node
  \<open>i\<close>. In a graph that feeds forward, every node is fed by earlier nodes only.
\<close>

definition edges :: "graph \<Rightarrow> (nat \<times> nat) set" where
  "edges g = {(j, i). i < length g \<and> j \<in> set (inbound (g ! i))}"

definition feeds_forward :: "graph \<Rightarrow> bool" where
  "feeds_forward g =
     list_all (\<lambda>(i, nd). list_all (\<lambda>j. j < i) (inbound nd)) (enumerate 0 g)"

definition is_SpeechFeatures :: "layer \<Rightarrow> bool" where
  "is_SpeechFeatures l =
     (case l of SpeechFeatures _ _ _ _ _ _ _ _ _ _ _ _ \<Rightarrow> True | _ \<Rightarrow> False)"

definition is_Conv2D :: "layer \<Rightarrow> bool" where
  "is_Conv2D l = (case l of Conv2D _ _ _ _ _ _ \<Rightarrow> True | _ \<Rightarrow> False)"

definition is_BatchNormalization :: "layer \<Rightarrow> bool" where
  "is_BatchNormalization l = (case l of BatchNormalization \<Rightarrow> True | _ \<Rightarrow> False)"

definition is_Dense :: "layer \<Rightarrow> bool" where
  "is_Dense l = (case l of Dense _ _ \<Rightarrow> True | _ \<Rightarrow> False)"

definition is_Softmax :: "layer \<Rightarrow> bool" where
  "is_Softmax l = (case l of Softmax _ \<Rightarrow> True | _ \<Rightarrow> False)"

text \<open>
  The exceptions that a step of the construction can raise: an IndexError or a TypeError
  from reading a shape, or whatever a collaborator raises.
\<close>

definition raised_by_step :: "error \<Rightarrow> bool" where
  "raised_by_step e =
     (case e of KeyError _ \<Rightarrow> False | ValueError _ _ \<Rightarrow> False | _ \<Rightarrow> True)"

text \<open>
  \<open>tip g net\<close>: the tensor \<open>net\<close> is the output of the last node of \<open>g\<close>.
\<close>

definition tip :: "graph \<Rightarrow> tensor \<Rightarrow> bool" where
  "tip g net =
     (length g = Suc (producer net) \<and> output_shape (g ! producer net) = shape net)"

text \<open>
  \<open>forward_from k sk\<close>: in the list \<open>sk\<close> of layers with their inputs, read as the
  nodes \<open>k\<close>, \<open>k + 1\<close>, ..., every node is fed by nodes of smaller index.
\<close>

definition forward_from :: "nat \<Rightarrow> (layer \<times> nat list) list \<Rightarrow> bool" where
  "forward_from k sk = list_all (\<lambda>(i, e). list_all (\<lambda>j. j < i) (snd e)) (enumerate k sk)"

section \<open>Failure of a call\<close>

lemma and_then_Inr_iff: "(and_then m f = Inr r) = (\<exists>x. m = Inr x \<and> f x = Inr r)"
  by (cases m) (simp_all add: and_then_def)

lemma and_then_Inl_iff:
  "(and_then m f = Inl e) = (m = Inl e \<or> (\<exists>x. m = Inr x \<and> f x = Inl e))"
  by (cases m) (simp_all add: and_then_def)

lemma from_collaborator_Inl: "from_collaborator r = Inl e \<Longrightarrow> raised_by_step e"
  by (cases r) (auto simp: from_collaborator_def raised_by_step_def)

lemma apply_layer_Inl: "apply_layer lib l ins g = Inl e \<Longrightarrow> raised_by_step e"
  by (auto simp: apply_layer_def and_then_Inl_iff dest: from_collaborator_Inl)

lemma shape_at_Inl: "shape_at s i = Inl e \<Longrightarrow> raised_by_step e"
  by (auto simp: shape_at_def Let_def raised_by_step_def split: if_splits)

lemma dim_mul_Inl: "dim_mul a b = Inl e \<Longrightarrow> raised_by_step e"
  by (auto simp: dim_mul_def raised_by_step_def split: option.splits)

lemma dim_floordiv_Inl: "dim_floordiv a k = Inl e \<Longrightarrow> raised_by_step e"
  by (auto simp: dim_floordiv_def raised_by_step_def split: option.splits)

lemma cnn_loop_Inl: "cnn_loop lib stages net g = Inl e \<Longrightarrow> raised_by_step e"
  by (induction lib stages net g rule: cnn_loop.induct)
     (auto split: sum.splits dest: apply_layer_Inl)

lemma rnn_loop_Inl: "rnn_loop lib l n net g = Inl e \<Longrightarrow> raised_by_step e"
  by (induction lib l n net g rule: rnn_loop.induct)
     (auto split: sum.splits dest: apply_layer_Inl)

lemma dense_loop_Inl: "dense_loop lib finals net g = Inl e \<Longrightarrow> raised_by_step e"
  by (induction lib finals net g rule: dense_loop.induct)
     (auto split: sum.splits dest: apply_layer_Inl)

text \<open>
  A failing call either fails at the dictionary lookup, with the KeyError of the
  unknown type, or passes the lookup and fails at a later step.
\<close>

lemma model_Inl:
  assumes "model parse lib flags = Inl e"
  shows "e = KeyError (rnn_type flags) \<and> map_of rnn_types (rnn_type flags) = None
       \<or> raised_by_step e \<and> map_of rnn_types (rnn_type flags) \<noteq> None"
  using assms unfolding model_def expr_stmt_def
  by (auto simp: and_then_Inl_iff split: option.splits
        dest: apply_layer_Inl from_collaborator_Inl shape_at_Inl dim_mul_Inl
              dim_floordiv_Inl cnn_loop_Inl rnn_loop_Inl dense_loop_Inl)

lemma rnn_types_None_iff:
  "(map_of rnn_types k = None) = (k \<noteq> ''lstm'' \<and> k \<noteq> ''gru'')"
  by (simp add: rnn_types_def)

text \<open>
  Claim C8. When \<open>flags.rnn_type\<close> is neither \<open>lstm\<close> nor \<open>gru\<close>, the call fails with
  the KeyError of the dictionary lookup, whatever the collaborators do; the ValueError
  that the test before the lookup builds is the result of no call at all. The value
  \<open>rnn\<close>, which the help text of \<open>--rnn_type\<close> offers, is refused in this way, and
  \<open>gru\<close>, which the help text does not mention, passes the lookup: a call with it
  never fails with a KeyError.
\<close>

theorem unsupported_rnn_type_KeyError:
  "(rnn_type flags \<noteq> ''lstm'' \<and> rnn_type flags \<noteq> ''gru''
      \<longrightarrow> model parse lib flags = Inl (KeyError (rnn_type flags)))
   \<and> model parse lib flags \<noteq> Inl (ValueError a b)
   \<and> model parse lib (flags\<lparr>rnn_type := ''rnn''\<rparr>) = Inl (KeyError ''rnn'')
   \<and> model parse lib (flags\<lparr>rnn_type := ''gru''\<rparr>) \<noteq> Inl (KeyError k)
   \<and> map arg_help (filter (\<lambda>x. arg_name x = ''--rnn_type'') (model_parameters []))
       = [''RNN type: it can be rnn or lstm'']"
proof -
  have unknown: "model parse lib f = Inl (KeyError (rnn_type f))"
    if "rnn_type f \<noteq> ''lstm'' \<and> rnn_type f \<noteq> ''gru''" for f :: "'a flags_scheme"
    using that by (simp add: model_def expr_stmt_def rnn_types_def)
  have no_value_error: "model parse lib flags \<noteq> Inl (ValueError a b)"
    using model_Inl [of parse lib flags "ValueError a b"]
    by (auto simp: raised_by_step_def)
  have gru: "model parse lib (flags\<lparr>rnn_type := ''gru''\<rparr>) \<noteq> Inl (KeyError k)"
    using model_Inl [of parse lib "flags\<lparr>rnn_type := ''gru''\<rparr>" "KeyError k"]
    by (auto simp: raised_by_step_def rnn_types_def)
  have help_text: "map arg_help (filter (\<lambda>x. arg_name x = ''--rnn_type'') (model_parameters []))
       = [''RNN type: it can be rnn or lstm'']"
    by (simp add: model_parameters_def add_argument_def)
  show ?thesis
    using unknown [of flags] unknown [of "flags\<lparr>rnn_type := ''rnn''\<rparr>"]
      no_value_error gru help_text by simp
qed

theorem unsupported_rnn_type_KeyError_witness:
  "rnn_type (example_flags\<lparr>rnn_type := ''rnn''\<rparr>) \<noteq> ''lstm''
   \<and> rnn_type (example_flags\<lparr>rnn_type := ''rnn''\<rparr>) \<noteq> ''gru''
   \<and> model example_parse example_lib (example_flags\<lparr>rnn_type := ''rnn''\<rparr>)
       = Inl (KeyError ''rnn'')"
  using unsupported_rnn_type_KeyError
    [of "example_flags\<lparr>rnn_type := ''rnn''\<rparr>" example_parse example_lib]
  by simp

section \<open>The graph of a successful call\<close>

lemma from_collaborator_Inr: "(from_collaborator r = Inr x) = (r = Inr x)"
  by (cases r) (simp_all add: from_collaborator_def)

lemma apply_layer_Inr:
  assumes "apply_layer lib l ins g = Inr (t, g')"
  shows "g' = g @ [\<lparr>layer = l, inbound = map producer ins, output_shape = shape t\<rparr>]"
    and "producer t = length g"
    and "lib l (map shape ins) = Inr (shape t)"
  using assms by (auto simp: apply_layer_def and_then_Inr_iff from_collaborator_Inr)

lemma apply_layer_tip:
  assumes "apply_layer lib l ins g = Inr (t, g')"
  shows "tip g' t"
  using apply_layer_Inr [OF assms] by (simp add: tip_def)

lemma apply_layer_skeleton:
  assumes "apply_layer lib l ins g = Inr (t, g')"
  shows "\<exists>nd. g' = g @ [nd] \<and> skeleton nd = (l, map producer ins)"
  using apply_layer_Inr [OF assms] by (simp add: skeleton_def)

lemma chain_append: "chain p (xs @ ys) = chain p xs @ chain (p + length xs) ys"
  by (induction xs arbitrary: p) simp_all

lemma length_chain: "length (chain p ls) = length ls"
  by (induction ls arbitrary: p) simp_all

lemma map_fst_chain: "map fst (chain p ls) = ls"
  by (induction ls arbitrary: p) simp_all

lemma cnn_loop_Inr:
  assumes "cnn_loop lib stages net g = Inr (net', g')" and "tip g net"
  shows "tip g' net' \<and>
         (\<exists>new. g' = g @ new \<and>
            map skeleton new = chain (producer net) (concat (map conv_stage stages)))"
  using assms
proof (induction lib stages net g rule: cnn_loop.induct)
  case (1 lib net g)
  then show ?case by simp
next
  case (2 lib filters kernel_size activation dilation_rate strides rest net g)
  from "2.prems"(1) obtain net1 g1 net2 g2 where
    conv: "apply_layer lib
             (Conv2D filters kernel_size activation dilation_rate strides ''same'') [net] g
           = Inr (net1, g1)"
    and bn: "apply_layer lib BatchNormalization [net1] g1 = Inr (net2, g2)"
    and rest: "cnn_loop lib rest net2 g2 = Inr (net', g')"
    by (auto split: sum.splits)
  from apply_layer_skeleton [OF conv] obtain nd1 where
    g1: "g1 = g @ [nd1]"
    and nd1: "skeleton nd1 =
      (Conv2D filters kernel_size activation dilation_rate strides ''same'', [producer net])"
    by auto
  from apply_layer_skeleton [OF bn] obtain nd2 where
    g2: "g2 = g1 @ [nd2]" and nd2: "skeleton nd2 = (BatchNormalization, [producer net1])"
    by auto
  have p1: "producer net1 = Suc (producer net)"
    using apply_layer_Inr(2) [OF conv] "2.prems"(2) by (simp add: tip_def)
  have p2: "producer net2 = Suc (Suc (producer net))"
    using apply_layer_Inr(2) [OF bn] g1 "2.prems"(2) by (simp add: tip_def)
  from "2.IH" [OF conv refl bn refl rest apply_layer_tip [OF bn]]
  obtain new where tip': "tip g' net'" and g': "g' = g2 @ new"
    and new: "map skeleton new = chain (producer net2) (concat (map conv_stage rest))"
    by auto
  have "g' = g @ (nd1 # nd2 # new)"
    using g' g1 g2 by simp
  moreover have "map skeleton (nd1 # nd2 # new) =
      chain (producer net)
        (concat (map conv_stage
           ((filters, kernel_size, activation, dilation_rate, strides) # rest)))"
    using nd1 nd2 new p1 p2 by (simp add: conv_stage_def)
  ultimately show ?case using tip' by blast
qed

lemma rnn_loop_Inr:
  assumes "rnn_loop lib l n net g = Inr (net', g')" and "tip g net"
  shows "tip g' net' \<and>
         (\<exists>new. g' = g @ new \<and> map skeleton new = chain (producer net) (replicate n l))"
  using assms
proof (induction lib l n net g rule: rnn_loop.induct)
  case (1 lib l net g)
  then show ?case by simp
next
  case (2 lib l n net g)
  from "2.prems"(1) obtain net1 g1 where
    step: "apply_layer lib l [net] g = Inr (net1, g1)"
    and rest: "rnn_loop lib l n net1 g1 = Inr (net', g')"
    by (auto split: sum.splits)
  from apply_layer_skeleton [OF step] obtain nd1 where
    g1: "g1 = g @ [nd1]" and nd1: "skeleton nd1 = (l, [producer net])"
    by auto
  have p1: "producer net1 = Suc (producer net)"
    using apply_layer_Inr(2) [OF step] "2.prems"(2) by (simp add: tip_def)
  from "2.IH" [OF step refl rest apply_layer_tip [OF step]]
  obtain new where tip': "tip g' net'" and g': "g' = g1 @ new"
    and new: "map skeleton new = chain (producer net1) (replicate n l)"
    by auto
  have "g' = g @ (nd1 # new)"
    using g' g1 by simp
  moreover have "map skeleton (nd1 # new) = chain (producer net) (replicate (Suc n) l)"
    using nd1 new p1 by simp
  ultimately show ?case using tip' by blast
qed

lemma dense_loop_Inr:
  assumes "dense_loop lib finals net g = Inr (net', g')" and "tip g net"
  shows "tip g' net' \<and>
         (\<exists>new. g' = g @ new \<and>
            map skeleton new = chain (producer net) (map dense_layer finals))"
  using assms
proof (induction lib finals net g rule: dense_loop.induct)
  case (1 lib net g)
  then show ?case by simp
next
  case (2 lib units activation rest net g)
  from "2.prems"(1) obtain net1 g1 where
    step: "apply_layer lib (Dense units activation) [net] g = Inr (net1, g1)"
    and rest: "dense_loop lib rest net1 g1 = Inr (net', g')"
    by (auto split: sum.splits)
  from apply_layer_skeleton [OF step] obtain nd1 where
    g1: "g1 = g @ [nd1]" and nd1: "skeleton nd1 = (Dense units activation, [producer net])"
    by auto
  have p1: "producer net1 = Suc (producer net)"
    using apply_layer_Inr(2) [OF step] "2.prems"(2) by (simp add: tip_def)
  from "2.IH" [OF step refl rest apply_layer_tip [OF step]]
  obtain new where tip': "tip g' net'" and g': "g' = g1 @ new"
    and new: "map skeleton new = chain (producer net1) (map dense_layer rest)"
    by auto
  have "g' = g @ (nd1 # new)"
    using g' g1 by simp
  moreover have "map skeleton (nd1 # new) =
      chain (producer net) (map dense_layer ((units, activation) # rest))"
    using nd1 new p1 by (simp add: dense_layer_def)
  ultimately show ?case using tip' by blast
qed


lemma model_InrE:
  assumes "model parse lib flags = Inr m"
  obtains rnn input_audio g0 net1 g1 net2 g2 filters kernel_sizes activations
    dilation_rates strides net3 g3 shape2 shape3 features net4 g4 net5 g5 feature_dim
    time_length middle mid_feature g6 query g7 att_weights1 g8 att_weights2 g9 net6 g10
    net7 g11 units activations2 net8 g12 net9 g13
  where "map_of rnn_types (rnn_type flags) = Some rnn"
    and "apply_layer lib (Input (PyTuple [desired_samples flags]) (batch_size flags)) [] []
         = Inr (input_audio, g0)"
    and "apply_layer lib
           (SpeechFeatures (window_size_ms flags) (window_stride_ms flags)
              (sample_rate flags) (use_tf_fft flags) (preemph flags) (window_type flags)
              (mel_num_bins flags) (mel_lower_edge_hertz flags)
              (mel_upper_edge_hertz flags) (mel_non_zero_only flags)
              (fft_magnitude_squared flags) (dct_num_features flags))
           [input_audio] g0 = Inr (net1, g1)"
    and "apply_layer lib ExpandDims [net1] g1 = Inr (net2, g2)"
    and "parse (cnn_filters flags) = Inr filters"
    and "parse (cnn_kernel_size flags) = Inr kernel_sizes"
    and "parse (cnn_act flags) = Inr activations"
    and "parse (cnn_dilation_rate flags) = Inr dilation_rates"
    and "parse (cnn_strides flags) = Inr strides"
    and "cnn_loop lib
           (zip filters (zip kernel_sizes (zip activations (zip dilation_rates strides))))
           net2 g2 = Inr (net3, g3)"
    and "shape_at (shape net3) 2 = Inr shape2"
    and "shape_at (shape net3) 3 = Inr shape3"
    and "dim_mul shape2 shape3 = Inr features"
    and "apply_layer lib (Reshape [- 1, features]) [net3] g3 = Inr (net4, g4)"
    and "rnn_loop lib (Bidirectional (RNN rnn (rnn_units flags) True True))
           (nat (rnn_layers flags)) net4 g4 = Inr (net5, g5)"
    and "shape_at (shape net5) (- 1) = Inr feature_dim"
    and "shape_at (shape net5) 1 = Inr time_length"
    and "dim_floordiv time_length 2 = Inr middle"
    and "apply_layer lib (GetItem middle) [net5] g5 = Inr (mid_feature, g6)"
    and "apply_layer lib (Dense (dim_value feature_dim) PyNone) [mid_feature] g6
         = Inr (query, g7)"
    and "apply_layer lib (Dot [1, 2]) [query, net5] g7 = Inr (att_weights1, g8)"
    and "apply_layer lib (Softmax ''attSoftmax'') [att_weights1] g8 = Inr (att_weights2, g9)"
    and "apply_layer lib (Dot [1, 1]) [att_weights2, net5] g9 = Inr (net6, g10)"
    and "apply_layer lib (Dropout (dropout1 flags)) [net6] g10 = Inr (net7, g11)"
    and "parse (units2 flags) = Inr units"
    and "parse (act2 flags) = Inr activations2"
    and "dense_loop lib (zip units activations2) net7 g11 = Inr (net8, g12)"
    and "apply_layer lib (Dense (label_count flags) PyNone) [net8] g12 = Inr (net9, g13)"
    and "m = \<lparr>inputs = input_audio, outputs = net9, nodes = g13\<rparr>"
  using assms unfolding model_def expr_stmt_def
  by (auto simp: and_then_Inr_iff from_collaborator_Inr split: option.splits)


lemma length_conv_stages: "length (concat (map conv_stage stages)) = 2 * length stages"
  by (induction stages) (auto simp: conv_stage_def)

lemma shape_at_dim_mul:
  assumes "dim_mul a b = Inr c"
  shows "\<exists>x y. a = Some x \<and> b = Some y \<and> c = x * y"
  using assms by (auto simp: dim_mul_def split: option.splits)

lemma dim_floordiv_Inr:
  assumes "dim_floordiv a k = Inr c"
  shows "\<exists>x. a = Some x \<and> c = x div k"
  using assms by (auto simp: dim_floordiv_def split: option.splits)

lemma tip_append:
  assumes "tip g net"
  shows "output_shape ((g @ new) ! producer net) = shape net"
  using assms by (simp add: tip_def nth_append)

lemma skeleton_record:
  "skeleton \<lparr>layer = l, inbound = ins, output_shape = s\<rparr> = (l, ins)"
  by (simp add: skeleton_def)

lemma stated_architecture_unfold:
  "stated_architecture flags rnn stages features middle feature_dim finals =
     [(Input (PyTuple [desired_samples flags]) (batch_size flags), []),
       (SpeechFeatures (window_size_ms flags) (window_stride_ms flags)
          (sample_rate flags) (use_tf_fft flags) (preemph flags) (window_type flags)
          (mel_num_bins flags) (mel_lower_edge_hertz flags)
          (mel_upper_edge_hertz flags) (mel_non_zero_only flags)
          (fft_magnitude_squared flags) (dct_num_features flags), [0]),
       (ExpandDims, [1])]
     @ chain 2 (concat (map conv_stage stages))
     @ [(Reshape [- 1, features], [2 + 2 * length stages])]
     @ chain (3 + 2 * length stages)
         (replicate (nat (rnn_layers flags))
            (Bidirectional (RNN rnn (rnn_units flags) True True)))
     @ attention_head (3 + 2 * length stages + nat (rnn_layers flags)) middle feature_dim
     @ [(Dropout (dropout1 flags), [3 + 2 * length stages + nat (rnn_layers flags) + 5])]
     @ chain (3 + 2 * length stages + nat (rnn_layers flags) + 6) (map dense_layer finals)
     @ [(Dense (label_count flags) PyNone,
         [3 + 2 * length stages + nat (rnn_layers flags) + 6 + length finals])]"
  unfolding stated_architecture_def Let_def
  by (simp add: chain_append length_conv_stages eval_nat_numeral)

lemma model_structure:
  assumes "model parse lib flags = Inr m"
  obtains rnn filters kernel_sizes activations dilation_rates strides units activations2
    shape2 shape3 time_length feature_dim
  where "map_of rnn_types (rnn_type flags) = Some rnn"
    and "parse (cnn_filters flags) = Inr filters"
    and "parse (cnn_kernel_size flags) = Inr kernel_sizes"
    and "parse (cnn_act flags) = Inr activations"
    and "parse (cnn_dilation_rate flags) = Inr dilation_rates"
    and "parse (cnn_strides flags) = Inr strides"
    and "parse (units2 flags) = Inr units"
    and "parse (act2 flags) = Inr activations2"
    and "map skeleton (nodes m) =
           stated_architecture flags rnn
             (zip filters (zip kernel_sizes (zip activations (zip dilation_rates strides))))
             (shape2 * shape3) (time_length div 2) (dim_value feature_dim)
             (zip units activations2)"
    and "shape_at (output_shape (nodes m !
            (2 + 2 * length (zip filters (zip kernel_sizes
                 (zip activations (zip dilation_rates strides))))))) 2 = Inr (Some shape2)"
    and "shape_at (output_shape (nodes m !
            (2 + 2 * length (zip filters (zip kernel_sizes
                 (zip activations (zip dilation_rates strides))))))) 3 = Inr (Some shape3)"
    and "shape_at (output_shape (nodes m !
            (3 + 2 * length (zip filters (zip kernel_sizes
                 (zip activations (zip dilation_rates strides)))) + nat (rnn_layers flags))))
            (- 1) = Inr feature_dim"
    and "shape_at (output_shape (nodes m !
            (3 + 2 * length (zip filters (zip kernel_sizes
                 (zip activations (zip dilation_rates strides)))) + nat (rnn_layers flags))))
            1 = Inr (Some time_length)"
    and "producer (inputs m) = 0"
    and "shape (inputs m) = output_shape (nodes m ! 0)"
    and "tip (nodes m) (outputs m)"
proof -
  from assms obtain rnn input_audio g0 net1 g1 net2 g2 filters kernel_sizes activations
    dilation_rates strides net3 g3 shape2 shape3 features net4 g4 net5 g5 feature_dim
    time_length middle mid_feature g6 query g7 att_weights1 g8 att_weights2 g9 net6 g10
    net7 g11 units activations2 net8 g12 net9 g13
  where rnn: "map_of rnn_types (rnn_type flags) = Some rnn"
    and s0: "apply_layer lib (Input (PyTuple [desired_samples flags]) (batch_size flags)) [] []
         = Inr (input_audio, g0)"
    and s1: "apply_layer lib
           (SpeechFeatures (window_size_ms flags) (window_stride_ms flags)
              (sample_rate flags) (use_tf_fft flags) (preemph flags) (window_type flags)
              (mel_num_bins flags) (mel_lower_edge_hertz flags)
              (mel_upper_edge_hertz flags) (mel_non_zero_only flags)
              (fft_magnitude_squared flags) (dct_num_features flags))
           [input_audio] g0 = Inr (net1, g1)"
    and s2: "apply_layer lib ExpandDims [net1] g1 = Inr (net2, g2)"
    and p1: "parse (cnn_filters flags) = Inr filters"
    and p2: "parse (cnn_kernel_size flags) = Inr kernel_sizes"
    and p3: "parse (cnn_act flags) = Inr activations"
    and p4: "parse (cnn_dilation_rate flags) = Inr dilation_rates"
    and p5: "parse (cnn_strides flags) = Inr strides"
    and s3: "cnn_loop lib
           (zip filters (zip kernel_sizes (zip activations (zip dilation_rates strides))))
           net2 g2 = Inr (net3, g3)"
    and d2: "shape_at (shape net3) 2 = Inr shape2"
    and d3: "shape_at (shape net3) 3 = Inr shape3"
    and mul: "dim_mul shape2 shape3 = Inr features"
    and s4: "apply_layer lib (Reshape [- 1, features]) [net3] g3 = Inr (net4, g4)"
    and s5: "rnn_loop lib (Bidirectional (RNN rnn (rnn_units flags) True True))
           (nat (rnn_layers flags)) net4 g4 = Inr (net5, g5)"
    and fd: "shape_at (shape net5) (- 1) = Inr feature_dim"
    and tl: "shape_at (shape net5) 1 = Inr time_length"
    and mid: "dim_floordiv time_length 2 = Inr middle"
    and s6: "apply_layer lib (GetItem middle) [net5] g5 = Inr (mid_feature, g6)"
    and s7: "apply_layer lib (Dense (dim_value feature_dim) PyNone) [mid_feature] g6
         = Inr (query, g7)"
    and s8: "apply_layer lib (Dot [1, 2]) [query, net5] g7 = Inr (att_weights1, g8)"
    and s9: "apply_layer lib (Softmax ''attSoftmax'') [att_weights1] g8
         = Inr (att_weights2, g9)"
    and s10: "apply_layer lib (Dot [1, 1]) [att_weights2, net5] g9 = Inr (net6, g10)"
    and s11: "apply_layer lib (Dropout (dropout1 flags)) [net6] g10 = Inr (net7, g11)"
    and p6: "parse (units2 flags) = Inr units"
    and p7: "parse (act2 flags) = Inr activations2"
    and s12: "dense_loop lib (zip units activations2) net7 g11 = Inr (net8, g12)"
    and s13: "apply_layer lib (Dense (label_count flags) PyNone) [net8] g12 = Inr (net9, g13)"
    and m: "m = \<lparr>inputs = input_audio, outputs = net9, nodes = g13\<rparr>"
    by (rule model_InrE)
  define stages where
    "stages = zip filters (zip kernel_sizes (zip activations (zip dilation_rates strides)))"
  define n where "n = nat (rnn_layers flags)"
  define r where "r = 3 + 2 * length stages + n"
  note s3' = s3 [folded stages_def] and s5' = s5 [folded n_def]
  from cnn_loop_Inr [OF s3' apply_layer_tip [OF s2]] obtain new3 where
    t3: "tip g3 net3" and g3: "g3 = g2 @ new3"
    and new3: "map skeleton new3 = chain (producer net2) (concat (map conv_stage stages))"
    by auto
  from rnn_loop_Inr [OF s5' apply_layer_tip [OF s4]] obtain new5 where
    t5: "tip g5 net5" and g5: "g5 = g4 @ new5"
    and new5: "map skeleton new5 =
      chain (producer net4) (replicate n (Bidirectional (RNN rnn (rnn_units flags) True True)))"
    by auto
  from dense_loop_Inr [OF s12 apply_layer_tip [OF s11]] obtain new12 where
    t12: "tip g12 net8" and g12: "g12 = g11 @ new12"
    and new12: "map skeleton new12 =
      chain (producer net7) (map dense_layer (zip units activations2))"
    by auto
  have len3: "length new3 = 2 * length stages"
    using arg_cong [OF new3, of length] by (simp add: length_chain length_conv_stages)
  have len5: "length new5 = n"
    using arg_cong [OF new5, of length] by (simp add: length_chain)
  have len12: "length new12 = length (zip units activations2)"
    using arg_cong [OF new12, of length] by (simp add: length_chain)
  note a0 = apply_layer_Inr [OF s0] and a1 = apply_layer_Inr [OF s1]
    and a2 = apply_layer_Inr [OF s2] and a4 = apply_layer_Inr [OF s4]
    and a6 = apply_layer_Inr [OF s6] and a7 = apply_layer_Inr [OF s7]
    and a8 = apply_layer_Inr [OF s8] and a9 = apply_layer_Inr [OF s9]
    and a10 = apply_layer_Inr [OF s10] and a11 = apply_layer_Inr [OF s11]
    and a13 = apply_layer_Inr [OF s13]
  have q0: "producer input_audio = 0" using a0 by simp
  have q1: "producer net1 = 1" using a1 a0 by simp
  have q2: "producer net2 = 2" using a2 a1 a0 by simp
  have q3: "producer net3 = 2 + 2 * length stages"
    using t3 g3 len3 a2 a1 a0 by (simp add: tip_def)
  have q4: "producer net4 = 3 + 2 * length stages"
    using a4(2) t3 q3 by (simp add: tip_def)
  have q5: "producer net5 = r"
    using t5 g5 len5 a4(1) t3 q3 by (simp add: tip_def r_def)
  have l5: "length g5 = Suc r" using t5 q5 by (simp add: tip_def)
  have q6: "producer mid_feature = r + 1" using a6(2) l5 by simp
  have q7: "producer query = r + 2" using a7(2) a6(1) l5 by simp
  have q8: "producer att_weights1 = r + 3" using a8(2) a7(1) a6(1) l5 by simp
  have q9: "producer att_weights2 = r + 4" using a9(2) a8(1) a7(1) a6(1) l5 by simp
  have q10: "producer net6 = r + 5" using a10(2) a9(1) a8(1) a7(1) a6(1) l5 by simp
  have q11: "producer net7 = r + 6"
    using a11(2) a10(1) a9(1) a8(1) a7(1) a6(1) l5 by simp
  have q12: "producer net8 = r + 6 + length (zip units activations2)"
    using t12 g12 len12 a11(1) a10(1) a9(1) a8(1) a7(1) a6(1) l5 by (simp add: tip_def)
  have ext5: "\<exists>rest. g13 = g5 @ rest"
    using a13(1) g12 a11(1) a10(1) a9(1) a8(1) a7(1) a6(1) by simp
  have ext3: "\<exists>rest. g13 = g3 @ rest"
    using ext5 g5 a4(1) by auto
  have ext0: "\<exists>rest. g13 = g0 @ rest"
    using ext3 g3 a2(1) a1(1) by auto
  have sk2: "map skeleton g2 =
      [(Input (PyTuple [desired_samples flags]) (batch_size flags), []),
       (SpeechFeatures (window_size_ms flags) (window_stride_ms flags)
          (sample_rate flags) (use_tf_fft flags) (preemph flags) (window_type flags)
          (mel_num_bins flags) (mel_lower_edge_hertz flags)
          (mel_upper_edge_hertz flags) (mel_non_zero_only flags)
          (fft_magnitude_squared flags) (dct_num_features flags), [0]),
       (ExpandDims, [1])]"
    using q0 q1 by (simp add: a2(1) a1(1) a0(1) skeleton_record)
  have sk5: "map skeleton g5 =
      map skeleton g2 @ chain 2 (concat (map conv_stage stages))
      @ [(Reshape [- 1, features], [2 + 2 * length stages])]
      @ chain (3 + 2 * length stages)
          (replicate n (Bidirectional (RNN rnn (rnn_units flags) True True)))"
    using new3 new5 q2 q3 q4 by (simp add: g5 a4(1) g3 skeleton_record)
  have sk11: "map skeleton g11 =
      map skeleton g5 @ attention_head r middle (dim_value feature_dim)
      @ [(Dropout (dropout1 flags), [r + 5])]"
    using q5 q6 q7 q8 q9 q10
    by (simp add: a11(1) a10(1) a9(1) a8(1) a7(1) a6(1) skeleton_record attention_head_def)
  have sk13: "map skeleton g13 =
      map skeleton g11 @ chain (r + 6) (map dense_layer (zip units activations2))
      @ [(Dense (label_count flags) PyNone, [r + 6 + length (zip units activations2)])]"
    using new12 q11 q12 by (simp add: a13(1) g12 skeleton_record)
  have sk: "map skeleton g13 =
      stated_architecture flags rnn stages features middle (dim_value feature_dim)
        (zip units activations2)"
    unfolding sk13 sk11 sk5 sk2 stated_architecture_unfold r_def n_def by simp
  from shape_at_dim_mul [OF mul] obtain x2 x3 where
    x2: "shape2 = Some x2" and x3: "shape3 = Some x3" and features: "features = x2 * x3"
    by auto
  from dim_floordiv_Inr [OF mid] obtain t where
    t: "time_length = Some t" and middle: "middle = t div 2"
    by auto
  from ext0 obtain rest0 where r0: "g13 = g0 @ rest0" by blast
  from ext3 obtain rest3 where r3: "g13 = g3 @ rest3" by blast
  from ext5 obtain rest5 where r5: "g13 = g5 @ rest5" by blast
  have o0: "output_shape (nodes m ! 0) = shape input_audio"
    using tip_append [OF apply_layer_tip [OF s0], of rest0] by (simp add: m r0 q0)
  have o3: "output_shape (nodes m ! (2 + 2 * length stages)) = shape net3"
    using tip_append [OF t3, of rest3] by (simp add: m r3 q3)
  have o5: "output_shape (nodes m ! (3 + 2 * length stages + n)) = shape net5"
    using tip_append [OF t5, of rest5] by (simp add: m r5 q5 r_def)
  show thesis
  proof (rule that [of rnn filters kernel_sizes activations dilation_rates strides units
        activations2 x2 x3 t feature_dim])
    show "map_of rnn_types (rnn_type flags) = Some rnn" by (rule rnn)
    show "parse (cnn_filters flags) = Inr filters" by (rule p1)
    show "parse (cnn_kernel_size flags) = Inr kernel_sizes" by (rule p2)
    show "parse (cnn_act flags) = Inr activations" by (rule p3)
    show "parse (cnn_dilation_rate flags) = Inr dilation_rates" by (rule p4)
    show "parse (cnn_strides flags) = Inr strides" by (rule p5)
    show "parse (units2 flags) = Inr units" by (rule p6)
    show "parse (act2 flags) = Inr activations2" by (rule p7)
    show "producer (inputs m) = 0" using m q0 by simp
    show "tip (nodes m) (outputs m)" using m apply_layer_tip [OF s13] by simp
    show "shape (inputs m) = output_shape (nodes m ! 0)"
      using o0 by (simp add: m)
    show "map skeleton (nodes m) =
           stated_architecture flags rnn
             (zip filters (zip kernel_sizes (zip activations (zip dilation_rates strides))))
             (x2 * x3) (t div 2) (dim_value feature_dim) (zip units activations2)"
      using sk m features middle by (simp add: stages_def)
    show "shape_at (output_shape (nodes m !
            (2 + 2 * length (zip filters (zip kernel_sizes
                 (zip activations (zip dilation_rates strides))))))) 2 = Inr (Some x2)"
      using o3 d2 x2 by (simp add: stages_def)
    show "shape_at (output_shape (nodes m !
            (2 + 2 * length (zip filters (zip kernel_sizes
                 (zip activations (zip dilation_rates strides))))))) 3 = Inr (Some x3)"
      using o3 d3 x3 by (simp add: stages_def)
    show "shape_at (output_shape (nodes m !
            (3 + 2 * length (zip filters (zip kernel_sizes
                 (zip activations (zip dilation_rates strides)))) + nat (rnn_layers flags))))
            (- 1) = Inr feature_dim"
      using o5 fd by (simp add: stages_def n_def)
    show "shape_at (output_shape (nodes m !
            (3 + 2 * length (zip filters (zip kernel_sizes
                 (zip activations (zip dilation_rates strides)))) + nat (rnn_layers flags))))
            1 = Inr (Some t)"
      using o5 tl t by (simp add: stages_def n_def)
  qed
qed

section \<open>Layers and wiring of the built graph\<close>

lemma layer_skeleton: "map layer g = map fst (map skeleton g)"
  by (simp add: skeleton_def comp_def)

lemma map_fst_attention_head:
  "map fst (attention_head r middle feature_dim) =
     [GetItem middle, Dense feature_dim PyNone, Dot [1, 2], Softmax ''attSoftmax'', Dot [1, 1]]"
  by (simp add: attention_head_def)

lemma stated_architecture_layers:
  "map fst (stated_architecture flags rnn stages features middle feature_dim finals) =
     [Input (PyTuple [desired_samples flags]) (batch_size flags),
      SpeechFeatures (window_size_ms flags) (window_stride_ms flags)
        (sample_rate flags) (use_tf_fft flags) (preemph flags) (window_type flags)
        (mel_num_bins flags) (mel_lower_edge_hertz flags)
        (mel_upper_edge_hertz flags) (mel_non_zero_only flags)
        (fft_magnitude_squared flags) (dct_num_features flags),
      ExpandDims]
     @ concat (map conv_stage stages)
     @ [Reshape [- 1, features]]
     @ replicate (nat (rnn_layers flags))
         (Bidirectional (RNN rnn (rnn_units flags) True True))
     @ [GetItem middle, Dense feature_dim PyNone, Dot [1, 2], Softmax ''attSoftmax'',
        Dot [1, 1], Dropout (dropout1 flags)]
     @ map dense_layer finals
     @ [Dense (label_count flags) PyNone]"
  unfolding stated_architecture_unfold
  by (simp add: map_fst_chain map_fst_attention_head)

lemma model_builds_stated_architecture_aux:
  assumes "model parse lib flags = Inr m"
  shows "\<exists>rnn stages finals features middle feature_dim.
     map skeleton (nodes m) =
       stated_architecture flags rnn stages features middle feature_dim finals"
proof -
  from assms obtain rnn filters kernel_sizes activations dilation_rates strides units
    activations2 shape2 shape3 time_length feature_dim
  where "map skeleton (nodes m) =
           stated_architecture flags rnn
             (zip filters (zip kernel_sizes (zip activations (zip dilation_rates strides))))
             (shape2 * shape3) (time_length div 2) (dim_value feature_dim)
             (zip units activations2)"
    by (rule model_structure)
  then show ?thesis by blast
qed

lemma nth_from_map:
  assumes "map f xs = ys" and "i < length ys"
  shows "f (xs ! i) = ys ! i"
  using assms by (metis length_map nth_map)

lemma is_layer_conv_stage:
  "is_Conv2D (Conv2D f k a d s p)" "\<not> is_Conv2D BatchNormalization"
  "\<not> is_BatchNormalization (Conv2D f k a d s p)" "is_BatchNormalization BatchNormalization"
  "\<not> is_Dense (Conv2D f k a d s p)" "\<not> is_Dense BatchNormalization"
  "\<not> is_SpeechFeatures (Conv2D f k a d s p)" "\<not> is_SpeechFeatures BatchNormalization"
  by (simp_all add: is_Conv2D_def is_BatchNormalization_def is_Dense_def
        is_SpeechFeatures_def)

lemma is_layer_Dense:
  "is_Dense (Dense u a)" "\<not> is_Conv2D (Dense u a)" "\<not> is_BatchNormalization (Dense u a)"
  "\<not> is_SpeechFeatures (Dense u a)"
  by (simp_all add: is_Conv2D_def is_BatchNormalization_def is_Dense_def
        is_SpeechFeatures_def)

lemma is_layer_Bidirectional:
  "\<not> is_Dense (Bidirectional x)" "\<not> is_Conv2D (Bidirectional x)"
  "\<not> is_BatchNormalization (Bidirectional x)" "\<not> is_SpeechFeatures (Bidirectional x)"
  by (simp_all add: is_Conv2D_def is_BatchNormalization_def is_Dense_def
        is_SpeechFeatures_def)

lemma filter_conv_stage:
  "filter is_SpeechFeatures (conv_stage st) = []"
  "filter is_Dense (conv_stage st) = []"
  "length (filter is_Conv2D (conv_stage st)) = 1"
  "length (filter is_BatchNormalization (conv_stage st)) = 1"
proof -
  obtain f k a d s where st: "st = (f, k, a, d, s)"
    by (cases st)
  show "filter is_SpeechFeatures (conv_stage st) = []"
    "filter is_Dense (conv_stage st) = []"
    "length (filter is_Conv2D (conv_stage st)) = 1"
    "length (filter is_BatchNormalization (conv_stage st)) = 1"
    by (simp_all add: st conv_stage_def is_layer_conv_stage)
qed

lemma filter_conv_stages:
  "filter is_SpeechFeatures (concat (map conv_stage stages)) = []"
  "filter is_Dense (concat (map conv_stage stages)) = []"
  "length (filter is_Conv2D (concat (map conv_stage stages))) = length stages"
  "length (filter is_BatchNormalization (concat (map conv_stage stages))) = length stages"
  by (induction stages) (simp_all add: filter_conv_stage)

lemma filter_dense_layers:
  "filter is_SpeechFeatures (map dense_layer finals) = []"
  "filter is_Conv2D (map dense_layer finals) = []"
  "filter is_BatchNormalization (map dense_layer finals) = []"
  "filter is_Dense (map dense_layer finals) = map dense_layer finals"
  by (induction finals) (simp_all add: dense_layer_def is_layer_Dense split: prod.splits)

lemma filter_bidirectional:
  "filter is_SpeechFeatures (replicate n (Bidirectional x)) = []"
  "filter is_Conv2D (replicate n (Bidirectional x)) = []"
  "filter is_BatchNormalization (replicate n (Bidirectional x)) = []"
  "filter is_Dense (replicate n (Bidirectional x)) = []"
  by (simp_all add: is_layer_Bidirectional)

lemma model_layers:
  assumes "model parse lib flags = Inr m"
  obtains rnn filters kernel_sizes activations dilation_rates strides units activations2
    features middle feature_dim
  where "parse (cnn_filters flags) = Inr filters"
    and "parse (cnn_kernel_size flags) = Inr kernel_sizes"
    and "parse (cnn_act flags) = Inr activations"
    and "parse (cnn_dilation_rate flags) = Inr dilation_rates"
    and "parse (cnn_strides flags) = Inr strides"
    and "parse (units2 flags) = Inr units"
    and "parse (act2 flags) = Inr activations2"
    and "map layer (nodes m) =
          [Input (PyTuple [desired_samples flags]) (batch_size flags),
           SpeechFeatures (window_size_ms flags) (window_stride_ms flags)
             (sample_rate flags) (use_tf_fft flags) (preemph flags) (window_type flags)
             (mel_num_bins flags) (mel_lower_edge_hertz flags)
             (mel_upper_edge_hertz flags) (mel_non_zero_only flags)
             (fft_magnitude_squared flags) (dct_num_features flags),
           ExpandDims]
          @ concat (map conv_stage
              (zip filters (zip kernel_sizes (zip activations (zip dilation_rates strides)))))
          @ [Reshape [- 1, features]]
          @ replicate (nat (rnn_layers flags))
              (Bidirectional (RNN rnn (rnn_units flags) True True))
          @ [GetItem middle, Dense feature_dim PyNone, Dot [1, 2], Softmax ''attSoftmax'',
             Dot [1, 1], Dropout (dropout1 flags)]
          @ map dense_layer (zip units activations2)
          @ [Dense (label_count flags) PyNone]"
proof -
  from assms obtain rnn filters kernel_sizes activations dilation_rates strides units
    activations2 shape2 shape3 time_length feature_dim
  where p: "parse (cnn_filters flags) = Inr filters"
      "parse (cnn_kernel_size flags) = Inr kernel_sizes"
      "parse (cnn_act flags) = Inr activations"
      "parse (cnn_dilation_rate flags) = Inr dilation_rates"
      "parse (cnn_strides flags) = Inr strides"
      "parse (units2 flags) = Inr units"
      "parse (act2 flags) = Inr activations2"
    and sk: "map skeleton (nodes m) =
           stated_architecture flags rnn
             (zip filters (zip kernel_sizes (zip activations (zip dilation_rates strides))))
             (shape2 * shape3) (time_length div 2) (dim_value feature_dim)
             (zip units activations2)"
    by (rule model_structure)
  note stated_architecture_layers [of flags rnn
      "zip filters (zip kernel_sizes (zip activations (zip dilation_rates strides)))"
      "shape2 * shape3" "time_length div 2" "dim_value feature_dim" "zip units activations2",
      folded sk, folded layer_skeleton]
  with p show thesis by (rule that)
qed

lemma filter_Softmax:
  "filter is_Softmax (concat (map conv_stage stages)) = []"
  "filter is_Softmax (map dense_layer finals) = []"
  "filter is_Softmax (replicate n (Bidirectional x)) = []"
proof -
  have "filter is_Softmax (conv_stage st) = []" for st
  proof -
    obtain f k a d s where st: "st = (f, k, a, d, s)"
      by (cases st)
    show ?thesis by (simp add: st conv_stage_def is_Softmax_def)
  qed
  then show "filter is_Softmax (concat (map conv_stage stages)) = []"
    by (induction stages) simp_all
  show "filter is_Softmax (map dense_layer finals) = []"
    by (induction finals) (simp_all add: dense_layer_def is_Softmax_def split: prod.splits)
  show "filter is_Softmax (replicate n (Bidirectional x)) = []"
    by (simp add: is_Softmax_def)
qed

lemma model_same_zips:
  assumes "parse (cnn_filters flags) = Inr filters"
    and "parse (cnn_kernel_size flags) = Inr kernel_sizes"
    and "parse (cnn_act flags) = Inr activations"
    and "parse (cnn_dilation_rate flags) = Inr dilation_rates"
    and "parse (cnn_strides flags) = Inr strides"
    and "parse (units2 flags) = Inr units"
    and "parse (act2 flags) = Inr activations2"
    and "parse' (cnn_filters flags) = Inr filters'"
    and "parse' (cnn_kernel_size flags) = Inr kernel_sizes'"
    and "parse' (cnn_act flags) = Inr activations'"
    and "parse' (cnn_dilation_rate flags) = Inr dilation_rates'"
    and "parse' (cnn_strides flags) = Inr strides'"
    and "parse' (units2 flags) = Inr units'"
    and "parse' (act2 flags) = Inr activations2'"
    and "zip filters' (zip kernel_sizes' (zip activations' (zip dilation_rates' strides')))
       = zip filters (zip kernel_sizes (zip activations (zip dilation_rates strides)))"
    and "zip units' activations2' = zip units activations2"
  shows "model parse' lib flags = model parse lib flags"
  unfolding model_def assms from_collaborator_def sum.case and_then_def ..

lemma zip5_take:
  assumes "c = length (zip a (zip b (zip d (zip e f))))"
  shows "zip (take c a) (zip (take c b) (zip (take c d) (zip (take c e) (take c f))))
       = zip a (zip b (zip d (zip e f)))"
  unfolding take_zip [symmetric] using assms by simp

lemma chain_eq_Nil: "(chain p ls = []) = (ls = [])"
  by (cases ls) simp_all

lemma last_chain: "ls \<noteq> [] \<Longrightarrow> last (chain p ls) = (last ls, [p + length ls - 1])"
  by (induction ls arbitrary: p) (auto simp: neq_Nil_conv)

lemma length_attention_head: "length (attention_head r middle feature_dim) = 5"
  by (simp add: attention_head_def)

lemma stated_architecture_snoc:
  "\<exists>front. stated_architecture flags rnn stages features middle feature_dim finals =
     front @ [(Dense (label_count flags) PyNone, [length front - 1])]"
proof -
  define r where "r = 3 + 2 * length stages + nat (rnn_layers flags)"
  define front where "front =
     [(Input (PyTuple [desired_samples flags]) (batch_size flags), []),
       (SpeechFeatures (window_size_ms flags) (window_stride_ms flags)
          (sample_rate flags) (use_tf_fft flags) (preemph flags) (window_type flags)
          (mel_num_bins flags) (mel_lower_edge_hertz flags)
          (mel_upper_edge_hertz flags) (mel_non_zero_only flags)
          (fft_magnitude_squared flags) (dct_num_features flags), [0]),
       (ExpandDims, [1])]
     @ chain 2 (concat (map conv_stage stages))
     @ [(Reshape [- 1, features], [2 + 2 * length stages])]
     @ chain (3 + 2 * length stages)
         (replicate (nat (rnn_layers flags))
            (Bidirectional (RNN rnn (rnn_units flags) True True)))
     @ attention_head r middle feature_dim
     @ [(Dropout (dropout1 flags), [r + 5])]
     @ chain (r + 6) (map dense_layer finals)"
  have "stated_architecture flags rnn stages features middle feature_dim finals =
      front @ [(Dense (label_count flags) PyNone, [r + 6 + length finals])]"
    unfolding stated_architecture_unfold front_def r_def by simp
  moreover have "length front = r + 7 + length finals"
    unfolding front_def
    by (simp add: length_chain length_conv_stages attention_head_def r_def)
  ultimately show ?thesis by simp
qed

lemma model_last_layer:
  assumes "model parse lib flags = Inr m"
  shows "Suc (producer (outputs m)) = length (nodes m)"
    and "shape (outputs m) = output_shape (nodes m ! producer (outputs m))"
    and "skeleton (nodes m ! producer (outputs m)) =
           (Dense (label_count flags) PyNone, [producer (outputs m) - 1])"
proof -
  from model_builds_stated_architecture_aux [OF assms] stated_architecture_snoc
  obtain front where
    sk: "map skeleton (nodes m) =
      front @ [(Dense (label_count flags) PyNone, [length front - 1])]"
    by metis
  from assms have t: "tip (nodes m) (outputs m)"
    by (rule model_structure)
  show len: "Suc (producer (outputs m)) = length (nodes m)"
    and "shape (outputs m) = output_shape (nodes m ! producer (outputs m))"
    using t by (simp_all add: tip_def)
  have "length (nodes m) = Suc (length front)"
    using arg_cong [OF sk, of length] by simp
  with len have p: "producer (outputs m) = length front" by simp
  show "skeleton (nodes m ! producer (outputs m)) =
           (Dense (label_count flags) PyNone, [producer (outputs m) - 1])"
    using nth_from_map [OF sk, of "length front"] by (simp add: p)
qed

section \<open>Every node is fed by earlier nodes\<close>

lemma forward_from_Nil: "forward_from k []"
  by (simp add: forward_from_def)

lemma forward_from_Cons:
  "forward_from k (e # sk) = (list_all (\<lambda>j. j < k) (snd e) \<and> forward_from (Suc k) sk)"
  by (simp add: forward_from_def)

lemma forward_from_append:
  "forward_from k (a @ b) = (forward_from k a \<and> forward_from (k + length a) b)"
  by (simp add: forward_from_def enumerate_append_eq)

lemma forward_from_chain: "p < k \<Longrightarrow> forward_from k (chain p ls)"
  by (induction ls arbitrary: p k) (simp_all add: forward_from_Nil forward_from_Cons)

lemma forward_from_skeleton:
  "list_all (\<lambda>(i, nd). list_all (\<lambda>j. j < i) (inbound nd)) (enumerate k g)
     = forward_from k (map skeleton g)"
  by (induction g arbitrary: k) (simp_all add: forward_from_def skeleton_def)

lemma feeds_forward_skeleton: "feeds_forward g = forward_from 0 (map skeleton g)"
  by (simp add: feeds_forward_def forward_from_skeleton)

lemma forward_from_stated_architecture:
  "forward_from 0 (stated_architecture flags rnn stages features middle feature_dim finals)"
  unfolding stated_architecture_unfold
  by (simp add: forward_from_append forward_from_Cons forward_from_Nil forward_from_chain
      attention_head_def length_chain length_conv_stages)

lemma list_all_enumerate:
  "list_all (\<lambda>(i, x). P i x) (enumerate k xs) = (\<forall>i<length xs. P (k + i) (xs ! i))"
  by (simp add: list_all_length nth_enumerate_eq)

lemma feeds_forward_nth:
  "feeds_forward g = (\<forall>i<length g. \<forall>j\<in>set (inbound (g ! i)). j < i)"
  unfolding feeds_forward_def list_all_enumerate by (simp add: list_all_iff)

lemma feeds_forward_take: "feeds_forward g \<Longrightarrow> feeds_forward (take k g)"
  by (simp add: feeds_forward_nth)

lemma feeds_forward_acyclic:
  assumes "feeds_forward g"
  shows "acyclic (edges g)"
proof -
  have "edges g \<subseteq> {(j, i). j < i}"
    using assms by (auto simp: edges_def feeds_forward_nth)
  moreover have "acyclic {(j, i :: nat). j < i}"
    using wf_less by (auto intro: wf_acyclic simp: less_than_def [symmetric])
  ultimately show ?thesis by (rule acyclic_subset [rotated])
qed

lemma model_feeds_forward:
  assumes "model parse lib flags = Inr m"
  shows "feeds_forward (nodes m)"
  using model_builds_stated_architecture_aux [OF assms]
  by (auto simp: feeds_forward_skeleton forward_from_stated_architecture)

section \<open>The examples, evaluated\<close>

lemma example_succeeds:
  "\<exists>m. model example_parse example_lib example_flags = Inr m \<and> length (nodes m) = 19"
  by (simp add: model_def expr_stmt_def rnn_types_def example_flags_def example_parse_def
      example_lib_def apply_layer_def and_then_def from_collaborator_def shape_at_def
      dim_mul_def dim_floordiv_def dim_value_def quoted_def eval_nat_numeral)

lemma example_unequal_lists_succeeds:
  "\<exists>m. model example_parse example_lib
         (example_flags\<lparr>cnn_filters := ''10,1,7'', units2 := ''64,32,16''\<rparr>) = Inr m"
  by (simp add: model_def expr_stmt_def rnn_types_def example_flags_def example_parse_def
      example_lib_def apply_layer_def and_then_def from_collaborator_def shape_at_def
      dim_mul_def dim_floordiv_def dim_value_def quoted_def eval_nat_numeral)

lemma example_parse_values:
  "example_parse (cnn_filters example_flags) = Inr [PyInt 10, PyInt 1]"
  "example_parse (cnn_kernel_size example_flags) =
     Inr [PyTuple [PyInt 5, PyInt 1], PyTuple [PyInt 5, PyInt 1]]"
  "example_parse (cnn_act example_flags) = Inr [PyStr ''relu'', PyStr ''relu'']"
  "example_parse (cnn_dilation_rate example_flags) =
     Inr [PyTuple [PyInt 1, PyInt 1], PyTuple [PyInt 1, PyInt 1]]"
  "example_parse (cnn_strides example_flags) =
     Inr [PyTuple [PyInt 1, PyInt 1], PyTuple [PyInt 1, PyInt 1]]"
  "example_parse (units2 example_flags) = Inr [PyInt 64, PyInt 32]"
  "example_parse (act2 example_flags) = Inr [PyStr ''relu'', PyStr ''linear'']"
  "example_parse ''10,1,7'' = Inr [PyInt 10, PyInt 1, PyInt 7]"
  "example_parse ''64,32,16'' = Inr [PyInt 64, PyInt 32, PyInt 16]"
  by (simp_all add: example_parse_def example_flags_def quoted_def)

section \<open>The graph that \<open>model\<close> returns\<close>

text \<open>
  Claim C1. In the graph of a successful call the attention pooling reads the output of
  one node \<open>r\<close>, the end of the recurrent stack: when \<open>flags.rnn_layers\<close> is positive,
  node \<open>r\<close> is the last Bidirectional layer. With \<open>time_length\<close> dimension 1 and
  \<open>feature_dim\<close> the last dimension of the static shape of node \<open>r\<close>,
  \<^item> node \<open>r + 1\<close> is the subscript that takes timestep \<open>time_length div 2\<close> of node \<open>r\<close>;
  \<^item> node \<open>r + 2\<close>, the query, is a Dense layer of \<open>feature_dim\<close> units, without
    activation, applied to node \<open>r + 1\<close>;
  \<^item> node \<open>r + 3\<close> is the Dot layer with axes 1 and 2 applied to the query and node \<open>r\<close>
    (the product of the query with every timestep), and node \<open>r + 4\<close> is the Softmax
    layer applied to it, the attention weights;
  \<^item> node \<open>r + 5\<close> is the Dot layer with axes 1 and 1 applied to the weights and node
    \<open>r\<close>: the sum of the timesteps of node \<open>r\<close> with these weights.
\<close>

theorem attention_pooling_mid_sequence:
  assumes "model parse lib flags = Inr m"
  shows "\<exists>r time_length feature_dim.
     r + 5 < length (nodes m)
     \<and> shape_at (output_shape (nodes m ! r)) 1 = Inr (Some time_length)
     \<and> shape_at (output_shape (nodes m ! r)) (- 1) = Inr feature_dim
     \<and> skeleton (nodes m ! (r + 1)) = (GetItem (time_length div 2), [r])
     \<and> skeleton (nodes m ! (r + 2)) = (Dense (dim_value feature_dim) PyNone, [r + 1])
     \<and> skeleton (nodes m ! (r + 3)) = (Dot [1, 2], [r + 2, r])
     \<and> skeleton (nodes m ! (r + 4)) = (Softmax ''attSoftmax'', [r + 3])
     \<and> skeleton (nodes m ! (r + 5)) = (Dot [1, 1], [r + 4, r])
     \<and> (0 < rnn_layers flags \<longrightarrow>
          (\<exists>rnn. skeleton (nodes m ! r) =
             (Bidirectional (RNN rnn (rnn_units flags) True True), [r - 1])))"
proof -
  from assms obtain rnn filters kernel_sizes activations dilation_rates strides units
    activations2 shape2 shape3 time_length feature_dim
  where sk0: "map skeleton (nodes m) =
           stated_architecture flags rnn
             (zip filters (zip kernel_sizes (zip activations (zip dilation_rates strides))))
             (shape2 * shape3) (time_length div 2) (dim_value feature_dim)
             (zip units activations2)"
    and fd0: "shape_at (output_shape (nodes m !
            (3 + 2 * length (zip filters (zip kernel_sizes
                 (zip activations (zip dilation_rates strides)))) + nat (rnn_layers flags))))
            (- 1) = Inr feature_dim"
    and tl0: "shape_at (output_shape (nodes m !
            (3 + 2 * length (zip filters (zip kernel_sizes
                 (zip activations (zip dilation_rates strides)))) + nat (rnn_layers flags))))
            1 = Inr (Some time_length)"
    by (rule model_structure)
  define stages where
    "stages = zip filters (zip kernel_sizes (zip activations (zip dilation_rates strides)))"
  define finals where "finals = zip units activations2"
  define n where "n = nat (rnn_layers flags)"
  define r where "r = 3 + 2 * length stages + n"
  define l where "l = Bidirectional (RNN rnn (rnn_units flags) True True)"
  define front where "front =
     [(Input (PyTuple [desired_samples flags]) (batch_size flags), []),
       (SpeechFeatures (window_size_ms flags) (window_stride_ms flags)
          (sample_rate flags) (use_tf_fft flags) (preemph flags) (window_type flags)
          (mel_num_bins flags) (mel_lower_edge_hertz flags)
          (mel_upper_edge_hertz flags) (mel_non_zero_only flags)
          (fft_magnitude_squared flags) (dct_num_features flags), [0]),
       (ExpandDims, [1])]
     @ chain 2 (concat (map conv_stage stages))
     @ [(Reshape [- 1, shape2 * shape3], [2 + 2 * length stages])]
     @ chain (3 + 2 * length stages) (replicate n l)"
  define rest where "rest =
     [(Dropout (dropout1 flags), [r + 5])]
     @ chain (r + 6) (map dense_layer finals)
     @ [(Dense (label_count flags) PyNone, [r + 6 + length finals])]"
  note fd = fd0 [folded stages_def n_def, folded r_def]
    and tl = tl0 [folded stages_def n_def, folded r_def]
  have sk: "map skeleton (nodes m) =
      front @ attention_head r (time_length div 2) (dim_value feature_dim) @ rest"
    unfolding sk0 stated_architecture_unfold front_def rest_def r_def n_def l_def
      stages_def finals_def
    by simp
  have len_front: "length front = r + 1"
    unfolding front_def by (simp add: length_chain length_conv_stages r_def)
  have len: "length (map skeleton (nodes m)) = r + 6 + length rest"
    unfolding sk by (simp add: len_front length_attention_head)
  have att: "skeleton (nodes m ! (r + 1 + k)) =
      attention_head r (time_length div 2) (dim_value feature_dim) ! k" if "k < 5" for k
  proof -
    have "r + 1 + k < length (map skeleton (nodes m))"
      using that len by simp
    from nth_from_map [OF refl this]
    have "skeleton (nodes m ! (r + 1 + k)) =
        (front @ attention_head r (time_length div 2) (dim_value feature_dim) @ rest)
          ! (length front + k)"
      by (simp add: sk len_front)
    also have "\<dots> = attention_head r (time_length div 2) (dim_value feature_dim) ! k"
      using that by (simp add: nth_append length_attention_head)
    finally show ?thesis .
  qed
  have a1: "skeleton (nodes m ! (r + 1)) = (GetItem (time_length div 2), [r])"
    using att [of 0] by (simp add: attention_head_def eval_nat_numeral)
  have a2: "skeleton (nodes m ! (r + 2)) = (Dense (dim_value feature_dim) PyNone, [r + 1])"
    using att [of 1] by (simp add: attention_head_def eval_nat_numeral)
  have a3: "skeleton (nodes m ! (r + 3)) = (Dot [1, 2], [r + 2, r])"
    using att [of 2] by (simp add: attention_head_def eval_nat_numeral)
  have a4: "skeleton (nodes m ! (r + 4)) = (Softmax ''attSoftmax'', [r + 3])"
    using att [of 3] by (simp add: attention_head_def eval_nat_numeral)
  have a5: "skeleton (nodes m ! (r + 5)) = (Dot [1, 1], [r + 4, r])"
    using att [of 4] by (simp add: attention_head_def eval_nat_numeral)
  have bound: "r + 5 < length (nodes m)"
    using len by simp
  have rnn_out: "skeleton (nodes m ! r) = (l, [r - 1])" if "0 < rnn_layers flags"
  proof -
    have n: "0 < n" using that by (simp add: n_def)
    have "r < length (map skeleton (nodes m))" using len by simp
    from nth_from_map [OF refl this]
    have "skeleton (nodes m ! r) =
        (front @ attention_head r (time_length div 2) (dim_value feature_dim) @ rest) ! r"
      by (simp add: sk)
    also have "\<dots> = front ! r"
      by (simp add: nth_append len_front)
    also have "\<dots> = last front"
      using len_front by (metis Suc_eq_plus1 diff_Suc_1 last_conv_nth length_0_conv nat.distinct(1))
    also have "\<dots> = last (chain (3 + 2 * length stages) (replicate n l))"
      unfolding front_def using n by (simp add: chain_eq_Nil)
    also have "\<dots> = (l, [r - 1])"
      using n by (simp add: last_chain r_def)
    finally show ?thesis .
  qed
  from bound tl fd a1 a2 a3 a4 a5 rnn_out show ?thesis
    unfolding l_def by blast
qed

theorem attention_pooling_mid_sequence_witness:
  "\<exists>m r time_length feature_dim rnn.
     model example_parse example_lib example_flags = Inr m
     \<and> 0 < rnn_layers example_flags
     \<and> r + 5 < length (nodes m)
     \<and> shape_at (output_shape (nodes m ! r)) 1 = Inr (Some time_length)
     \<and> shape_at (output_shape (nodes m ! r)) (- 1) = Inr feature_dim
     \<and> skeleton (nodes m ! (r + 1)) = (GetItem (time_length div 2), [r])
     \<and> skeleton (nodes m ! (r + 2)) = (Dense (dim_value feature_dim) PyNone, [r + 1])
     \<and> skeleton (nodes m ! (r + 3)) = (Dot [1, 2], [r + 2, r])
     \<and> skeleton (nodes m ! (r + 4)) = (Softmax ''attSoftmax'', [r + 3])
     \<and> skeleton (nodes m ! (r + 5)) = (Dot [1, 1], [r + 4, r])
     \<and> skeleton (nodes m ! r) = (Bidirectional (RNN rnn (PyInt 64) True True), [r - 1])"
proof -
  from example_succeeds obtain m where
    m: "model example_parse example_lib example_flags = Inr m" by blast
  have pos: "0 < rnn_layers example_flags"
    by (simp add: example_flags_def)
  have units: "rnn_units example_flags = PyInt 64"
    by (simp add: example_flags_def)
  from attention_pooling_mid_sequence [OF m] pos m show ?thesis
    unfolding units by blast
qed

text \<open>
  Claim C2. The graph of a successful call is the stated architecture, in the stated
  order: the audio input, the speech features, the expansion by one axis, a Conv2D and
  a BatchNormalization for each tuple of the zipped parsed CNN lists, the reshape, as
  many Bidirectional layers as \<open>range(flags.rnn_layers)\<close> has elements, the attention
  head, dropout, a Dense layer for each pair of the zipped \<open>units2\<close> and \<open>act2\<close> lists,
  and a last Dense layer of \<open>flags.label_count\<close> units. Each node other than those of
  the attention head is fed by the node before it.
\<close>

theorem model_builds_stated_architecture:
  assumes "model parse lib flags = Inr m"
  shows "\<exists>rnn filters kernel_sizes activations dilation_rates strides units activations2
            stages finals features middle feature_dim.
     map_of rnn_types (rnn_type flags) = Some rnn
     \<and> parse (cnn_filters flags) = Inr filters
     \<and> parse (cnn_kernel_size flags) = Inr kernel_sizes
     \<and> parse (cnn_act flags) = Inr activations
     \<and> parse (cnn_dilation_rate flags) = Inr dilation_rates
     \<and> parse (cnn_strides flags) = Inr strides
     \<and> parse (units2 flags) = Inr units
     \<and> parse (act2 flags) = Inr activations2
     \<and> stages = zip filters (zip kernel_sizes (zip activations (zip dilation_rates strides)))
     \<and> finals = zip units activations2
     \<and> map skeleton (nodes m) =
           stated_architecture flags rnn stages features middle feature_dim finals
     \<and> map layer (nodes m) =
          [Input (PyTuple [desired_samples flags]) (batch_size flags),
           SpeechFeatures (window_size_ms flags) (window_stride_ms flags)
             (sample_rate flags) (use_tf_fft flags) (preemph flags) (window_type flags)
             (mel_num_bins flags) (mel_lower_edge_hertz flags)
             (mel_upper_edge_hertz flags) (mel_non_zero_only flags)
             (fft_magnitude_squared flags) (dct_num_features flags),
           ExpandDims]
          @ concat (map conv_stage stages)
          @ [Reshape [- 1, features]]
          @ replicate (nat (rnn_layers flags))
              (Bidirectional (RNN rnn (rnn_units flags) True True))
          @ [GetItem middle, Dense feature_dim PyNone, Dot [1, 2], Softmax ''attSoftmax'',
             Dot [1, 1], Dropout (dropout1 flags)]
          @ map dense_layer finals
          @ [Dense (label_count flags) PyNone]"
proof -
  from assms obtain rnn filters kernel_sizes activations dilation_rates strides units
    activations2 shape2 shape3 time_length feature_dim
  where "map_of rnn_types (rnn_type flags) = Some rnn"
    and "parse (cnn_filters flags) = Inr filters"
    and "parse (cnn_kernel_size flags) = Inr kernel_sizes"
    and "parse (cnn_act flags) = Inr activations"
    and "parse (cnn_dilation_rate flags) = Inr dilation_rates"
    and "parse (cnn_strides flags) = Inr strides"
    and "parse (units2 flags) = Inr units"
    and "parse (act2 flags) = Inr activations2"
    and sk: "map skeleton (nodes m) =
           stated_architecture flags rnn
             (zip filters (zip kernel_sizes (zip activations (zip dilation_rates strides))))
             (shape2 * shape3) (time_length div 2) (dim_value feature_dim)
             (zip units activations2)"
    by (rule model_structure)
  moreover note stated_architecture_layers [of flags rnn
      "zip filters (zip kernel_sizes (zip activations (zip dilation_rates strides)))"
      "shape2 * shape3" "time_length div 2" "dim_value feature_dim" "zip units activations2",
      folded sk, folded layer_skeleton]
  ultimately show ?thesis by blast
qed

theorem model_builds_stated_architecture_witness:
  "\<exists>m features middle feature_dim.
     model example_parse example_lib example_flags = Inr m
     \<and> map layer (nodes m) =
         [Input (PyTuple [PyInt 16000]) (PyInt 100),
          SpeechFeatures (PyFloat 40 0) (PyFloat 20 0) (PyInt 16000) (PyBool False)
            (PyFloat 0 0) (PyStr ''hann'') (PyInt 40) (PyFloat 20 0) (PyFloat 7000 0)
            (PyInt 1) (PyBool False) (PyInt 20),
          ExpandDims,
          Conv2D (PyInt 10) (PyTuple [PyInt 5, PyInt 1]) (PyStr ''relu'')
            (PyTuple [PyInt 1, PyInt 1]) (PyTuple [PyInt 1, PyInt 1]) ''same'',
          BatchNormalization,
          Conv2D (PyInt 1) (PyTuple [PyInt 5, PyInt 1]) (PyStr ''relu'')
            (PyTuple [PyInt 1, PyInt 1]) (PyTuple [PyInt 1, PyInt 1]) ''same'',
          BatchNormalization,
          Reshape [- 1, features],
          Bidirectional (RNN LSTM (PyInt 64) True True),
          Bidirectional (RNN LSTM (PyInt 64) True True),
          GetItem middle,
          Dense feature_dim PyNone,
          Dot [1, 2],
          Softmax ''attSoftmax'',
          Dot [1, 1],
          Dropout (PyFloat 1 (- 1)),
          Dense (PyInt 64) (PyStr ''relu''),
          Dense (PyInt 32) (PyStr ''linear''),
          Dense (PyInt 12) PyNone]"
proof -
  from example_succeeds obtain m where
    m: "model example_parse example_lib example_flags = Inr m" by blast
  from model_builds_stated_architecture [OF m]
  obtain rnn filters kernel_sizes activations dilation_rates strides units activations2
    stages finals features middle feature_dim
  where rnn: "map_of rnn_types (rnn_type example_flags) = Some rnn"
    and p: "example_parse (cnn_filters example_flags) = Inr filters"
      "example_parse (cnn_kernel_size example_flags) = Inr kernel_sizes"
      "example_parse (cnn_act example_flags) = Inr activations"
      "example_parse (cnn_dilation_rate example_flags) = Inr dilation_rates"
      "example_parse (cnn_strides example_flags) = Inr strides"
      "example_parse (units2 example_flags) = Inr units"
      "example_parse (act2 example_flags) = Inr activations2"
    and stages: "stages =
      zip filters (zip kernel_sizes (zip activations (zip dilation_rates strides)))"
    and finals: "finals = zip units activations2"
    and layers: "map layer (nodes m) =
          [Input (PyTuple [desired_samples example_flags]) (batch_size example_flags),
           SpeechFeatures (window_size_ms example_flags) (window_stride_ms example_flags)
             (sample_rate example_flags) (use_tf_fft example_flags) (preemph example_flags)
             (window_type example_flags) (mel_num_bins example_flags)
             (mel_lower_edge_hertz example_flags) (mel_upper_edge_hertz example_flags)
             (mel_non_zero_only example_flags) (fft_magnitude_squared example_flags)
             (dct_num_features example_flags),
           ExpandDims]
          @ concat (map conv_stage stages)
          @ [Reshape [- 1, features]]
          @ replicate (nat (rnn_layers example_flags))
              (Bidirectional (RNN rnn (rnn_units example_flags) True True))
          @ [GetItem middle, Dense feature_dim PyNone, Dot [1, 2], Softmax ''attSoftmax'',
             Dot [1, 1], Dropout (dropout1 example_flags)]
          @ map dense_layer finals
          @ [Dense (label_count example_flags) PyNone]"
    by blast
  have lists: "filters = [PyInt 10, PyInt 1]"
    "kernel_sizes = [PyTuple [PyInt 5, PyInt 1], PyTuple [PyInt 5, PyInt 1]]"
    "activations = [PyStr ''relu'', PyStr ''relu'']"
    "dilation_rates = [PyTuple [PyInt 1, PyInt 1], PyTuple [PyInt 1, PyInt 1]]"
    "strides = [PyTuple [PyInt 1, PyInt 1], PyTuple [PyInt 1, PyInt 1]]"
    "units = [PyInt 64, PyInt 32]"
    "activations2 = [PyStr ''relu'', PyStr ''linear'']"
    using p by (simp_all add: example_parse_values)
  have lstm: "rnn = LSTM"
    using rnn by (simp add: rnn_types_def example_flags_def)
  have two: "nat (rnn_layers example_flags) = Suc (Suc 0)"
    by (simp add: example_flags_def)
  have explicit: "map layer (nodes m) =
         [Input (PyTuple [PyInt 16000]) (PyInt 100),
          SpeechFeatures (PyFloat 40 0) (PyFloat 20 0) (PyInt 16000) (PyBool False)
            (PyFloat 0 0) (PyStr ''hann'') (PyInt 40) (PyFloat 20 0) (PyFloat 7000 0)
            (PyInt 1) (PyBool False) (PyInt 20),
          ExpandDims,
          Conv2D (PyInt 10) (PyTuple [PyInt 5, PyInt 1]) (PyStr ''relu'')
            (PyTuple [PyInt 1, PyInt 1]) (PyTuple [PyInt 1, PyInt 1]) ''same'',
          BatchNormalization,
          Conv2D (PyInt 1) (PyTuple [PyInt 5, PyInt 1]) (PyStr ''relu'')
            (PyTuple [PyInt 1, PyInt 1]) (PyTuple [PyInt 1, PyInt 1]) ''same'',
          BatchNormalization,
          Reshape [- 1, features],
          Bidirectional (RNN LSTM (PyInt 64) True True),
          Bidirectional (RNN LSTM (PyInt 64) True True),
          GetItem middle,
          Dense feature_dim PyNone,
          Dot [1, 2],
          Softmax ''attSoftmax'',
          Dot [1, 1],
          Dropout (PyFloat 1 (- 1)),
          Dense (PyInt 64) (PyStr ''relu''),
          Dense (PyInt 32) (PyStr ''linear''),
          Dense (PyInt 12) PyNone]"
    unfolding layers stages finals lists lstm two
    by (simp add: conv_stage_def dense_layer_def example_flags_def)
  show ?thesis
    by (rule exI [where x = m], rule exI [where x = features],
        rule exI [where x = middle], rule exI [where x = feature_dim])
       (simp only: m explicit)
qed

text \<open>
  Claim C4. A successful call returns one model: its input is the output of node 0,
  the Input layer built from \<open>flags.desired_samples\<close> and \<open>flags.batch_size\<close>, which
  no node feeds; its output is the output of the last node of the graph, the Dense
  layer of \<open>flags.label_count\<close> units. The result holds these two tensors and the
  nodes, and nothing else.
\<close>

theorem model_returns_input_to_dense:
  assumes "model parse lib flags = Inr m"
  shows "producer (inputs m) = 0
     \<and> shape (inputs m) = output_shape (nodes m ! 0)
     \<and> skeleton (nodes m ! 0) =
         (Input (PyTuple [desired_samples flags]) (batch_size flags), [])
     \<and> Suc (producer (outputs m)) = length (nodes m)
     \<and> shape (outputs m) = output_shape (nodes m ! producer (outputs m))
     \<and> skeleton (nodes m ! producer (outputs m)) =
         (Dense (label_count flags) PyNone, [producer (outputs m) - 1])"
proof -
  from assms obtain rnn filters kernel_sizes activations dilation_rates strides units
    activations2 shape2 shape3 time_length feature_dim
  where sk: "map skeleton (nodes m) =
           stated_architecture flags rnn
             (zip filters (zip kernel_sizes (zip activations (zip dilation_rates strides))))
             (shape2 * shape3) (time_length div 2) (dim_value feature_dim)
             (zip units activations2)"
    and i: "producer (inputs m) = 0" "shape (inputs m) = output_shape (nodes m ! 0)"
    by (rule model_structure)
  have n0: "skeleton (nodes m ! 0) =
      (Input (PyTuple [desired_samples flags]) (batch_size flags), [])"
    using nth_from_map [OF sk, of 0] by (simp add: stated_architecture_unfold)
  from i n0 model_last_layer [OF assms] show ?thesis by simp
qed

theorem model_returns_input_to_dense_witness:
  "\<exists>m. model example_parse example_lib example_flags = Inr m
     \<and> producer (inputs m) = 0
     \<and> shape (inputs m) = output_shape (nodes m ! 0)
     \<and> skeleton (nodes m ! 0) = (Input (PyTuple [PyInt 16000]) (PyInt 100), [])
     \<and> Suc (producer (outputs m)) = length (nodes m)
     \<and> shape (outputs m) = output_shape (nodes m ! producer (outputs m))
     \<and> skeleton (nodes m ! producer (outputs m)) =
         (Dense (PyInt 12) PyNone, [producer (outputs m) - 1])"
proof -
  from example_succeeds obtain m where
    m: "model example_parse example_lib example_flags = Inr m" by blast
  have f: "desired_samples example_flags = PyInt 16000"
    "batch_size example_flags = PyInt 100" "label_count example_flags = PyInt 12"
    by (simp_all add: example_flags_def)
  from model_returns_input_to_dense [OF m] m show ?thesis
    unfolding f by blast
qed

text \<open>
  Claim C5. The graph of a successful call is acyclic. A call of a layer appends one
  node, so the graphs after the successive steps are the prefixes of the final node
  list: in every one of them each node is fed by earlier nodes only, and the relation
  from a node to the nodes it feeds has no cycle.
\<close>

theorem graph_is_acyclic:
  assumes "model parse lib flags = Inr m"
  shows "(\<forall>k\<le>length (nodes m). feeds_forward (take k (nodes m)))
     \<and> acyclic (edges (nodes m))"
  using model_feeds_forward [OF assms]
  by (simp add: feeds_forward_take feeds_forward_acyclic)

theorem graph_is_acyclic_witness:
  "\<exists>m. model example_parse example_lib example_flags = Inr m
     \<and> 10 \<le> length (nodes m)
     \<and> feeds_forward (take 10 (nodes m))
     \<and> feeds_forward (nodes m)
     \<and> acyclic (edges (nodes m))"
proof -
  from example_succeeds obtain m where
    m: "model example_parse example_lib example_flags = Inr m"
    and len: "length (nodes m) = 19" by blast
  from graph_is_acyclic [OF m]
  have every: "\<forall>k\<le>length (nodes m). feeds_forward (take k (nodes m))"
    and acyc: "acyclic (edges (nodes m))"
    by simp_all
  from every len have ten: "feeds_forward (take 10 (nodes m))" by simp
  from every have "feeds_forward (take (length (nodes m)) (nodes m))" by blast
  then have whole: "feeds_forward (nodes m)" by simp
  from m len ten whole acyc show ?thesis by simp
qed

text \<open>
  Claim C6. In the graph of a successful call, node 1 is the SpeechFeatures layer,
  applied to the audio input (node 0). Its twelve arguments are the flags fields
  \<open>window_size_ms\<close>, \<open>window_stride_ms\<close>, \<open>sample_rate\<close>, \<open>use_tf_fft\<close>, \<open>preemph\<close>,
  \<open>window_type\<close>, \<open>mel_num_bins\<close>, \<open>mel_lower_edge_hertz\<close>, \<open>mel_upper_edge_hertz\<close>,
  \<open>mel_non_zero_only\<close>, \<open>fft_magnitude_squared\<close> and \<open>dct_num_features\<close>, unchanged, and
  it is the only SpeechFeatures layer of the graph.
\<close>

theorem speech_features_from_flags:
  assumes "model parse lib flags = Inr m"
  shows "skeleton (nodes m ! 0) =
           (Input (PyTuple [desired_samples flags]) (batch_size flags), [])
     \<and> skeleton (nodes m ! 1) =
           (SpeechFeatures (window_size_ms flags) (window_stride_ms flags)
              (sample_rate flags) (use_tf_fft flags) (preemph flags) (window_type flags)
              (mel_num_bins flags) (mel_lower_edge_hertz flags)
              (mel_upper_edge_hertz flags) (mel_non_zero_only flags)
              (fft_magnitude_squared flags) (dct_num_features flags), [0])
     \<and> filter is_SpeechFeatures (map layer (nodes m)) =
           [SpeechFeatures (window_size_ms flags) (window_stride_ms flags)
              (sample_rate flags) (use_tf_fft flags) (preemph flags) (window_type flags)
              (mel_num_bins flags) (mel_lower_edge_hertz flags)
              (mel_upper_edge_hertz flags) (mel_non_zero_only flags)
              (fft_magnitude_squared flags) (dct_num_features flags)]"
proof -
  from assms obtain rnn stages finals features middle feature_dim
  where sk: "map skeleton (nodes m) =
      stated_architecture flags rnn stages features middle feature_dim finals"
    using model_builds_stated_architecture_aux by blast
  have n0: "skeleton (nodes m ! 0) =
      (Input (PyTuple [desired_samples flags]) (batch_size flags), [])"
    using nth_from_map [OF sk, of 0] by (simp add: stated_architecture_unfold)
  have n1: "skeleton (nodes m ! 1) =
           (SpeechFeatures (window_size_ms flags) (window_stride_ms flags)
              (sample_rate flags) (use_tf_fft flags) (preemph flags) (window_type flags)
              (mel_num_bins flags) (mel_lower_edge_hertz flags)
              (mel_upper_edge_hertz flags) (mel_non_zero_only flags)
              (fft_magnitude_squared flags) (dct_num_features flags), [0])"
    using nth_from_map [OF sk, of 1] by (simp add: stated_architecture_unfold)
  have only: "filter is_SpeechFeatures (map layer (nodes m)) =
           [SpeechFeatures (window_size_ms flags) (window_stride_ms flags)
              (sample_rate flags) (use_tf_fft flags) (preemph flags) (window_type flags)
              (mel_num_bins flags) (mel_lower_edge_hertz flags)
              (mel_upper_edge_hertz flags) (mel_non_zero_only flags)
              (fft_magnitude_squared flags) (dct_num_features flags)]"
    unfolding layer_skeleton sk stated_architecture_layers
    by (simp add: filter_conv_stages filter_dense_layers filter_bidirectional)
       (simp add: is_SpeechFeatures_def)
  from n0 n1 only show ?thesis by simp
qed

theorem speech_features_from_flags_witness:
  "\<exists>m. model example_parse example_lib example_flags = Inr m
     \<and> skeleton (nodes m ! 0) = (Input (PyTuple [PyInt 16000]) (PyInt 100), [])
     \<and> skeleton (nodes m ! 1) =
         (SpeechFeatures (PyFloat 40 0) (PyFloat 20 0) (PyInt 16000) (PyBool False)
            (PyFloat 0 0) (PyStr ''hann'') (PyInt 40) (PyFloat 20 0) (PyFloat 7000 0)
            (PyInt 1) (PyBool False) (PyInt 20), [0])
     \<and> filter is_SpeechFeatures (map layer (nodes m)) =
         [SpeechFeatures (PyFloat 40 0) (PyFloat 20 0) (PyInt 16000) (PyBool False)
            (PyFloat 0 0) (PyStr ''hann'') (PyInt 40) (PyFloat 20 0) (PyFloat 7000 0)
            (PyInt 1) (PyBool False) (PyInt 20)]"
proof -
  from example_succeeds obtain m where
    m: "model example_parse example_lib example_flags = Inr m" by blast
  from speech_features_from_flags [OF m] m show ?thesis
    by (auto simp: example_flags_def)
qed



text \<open>
  Claim C9. In the graph of a successful call the number of Conv2D layers, and the
  number of BatchNormalization layers, is the minimum of the lengths of the five
  parsed CNN lists. The Dense layers are the query of the attention head, the hidden
  ones and the last one, and the number of hidden ones is the minimum of the lengths
  of the parsed \<open>units2\<close> and \<open>act2\<close> lists. The entries after the shortest list are
  dropped without an error: had \<open>parse\<close> returned the lists cut to these minimal
  lengths, the call would have returned the same model.
\<close>

theorem zip_truncates_to_shortest_list:
  assumes "model parse lib flags = Inr m"
  shows "\<exists>filters kernel_sizes activations dilation_rates strides units activations2 c d.
     parse (cnn_filters flags) = Inr filters
     \<and> parse (cnn_kernel_size flags) = Inr kernel_sizes
     \<and> parse (cnn_act flags) = Inr activations
     \<and> parse (cnn_dilation_rate flags) = Inr dilation_rates
     \<and> parse (cnn_strides flags) = Inr strides
     \<and> parse (units2 flags) = Inr units
     \<and> parse (act2 flags) = Inr activations2
     \<and> c = min (length filters) (min (length kernel_sizes) (min (length activations)
             (min (length dilation_rates) (length strides))))
     \<and> d = min (length units) (length activations2)
     \<and> length (filter is_Conv2D (map layer (nodes m))) = c
     \<and> length (filter is_BatchNormalization (map layer (nodes m))) = c
     \<and> length (filter is_Dense (map layer (nodes m))) = 1 + d + 1
     \<and> (\<forall>parse'.
           parse' (cnn_filters flags) = Inr (take c filters)
           \<and> parse' (cnn_kernel_size flags) = Inr (take c kernel_sizes)
           \<and> parse' (cnn_act flags) = Inr (take c activations)
           \<and> parse' (cnn_dilation_rate flags) = Inr (take c dilation_rates)
           \<and> parse' (cnn_strides flags) = Inr (take c strides)
           \<and> parse' (units2 flags) = Inr (take d units)
           \<and> parse' (act2 flags) = Inr (take d activations2)
           \<longrightarrow> model parse' lib flags = Inr m)"
proof -
  from assms obtain rnn filters kernel_sizes activations dilation_rates strides units
    activations2 features middle feature_dim
  where p: "parse (cnn_filters flags) = Inr filters"
      "parse (cnn_kernel_size flags) = Inr kernel_sizes"
      "parse (cnn_act flags) = Inr activations"
      "parse (cnn_dilation_rate flags) = Inr dilation_rates"
      "parse (cnn_strides flags) = Inr strides"
      "parse (units2 flags) = Inr units"
      "parse (act2 flags) = Inr activations2"
    and layers: "map layer (nodes m) =
          [Input (PyTuple [desired_samples flags]) (batch_size flags),
           SpeechFeatures (window_size_ms flags) (window_stride_ms flags)
             (sample_rate flags) (use_tf_fft flags) (preemph flags) (window_type flags)
             (mel_num_bins flags) (mel_lower_edge_hertz flags)
             (mel_upper_edge_hertz flags) (mel_non_zero_only flags)
             (fft_magnitude_squared flags) (dct_num_features flags),
           ExpandDims]
          @ concat (map conv_stage
              (zip filters (zip kernel_sizes (zip activations (zip dilation_rates strides)))))
          @ [Reshape [- 1, features]]
          @ replicate (nat (rnn_layers flags))
              (Bidirectional (RNN rnn (rnn_units flags) True True))
          @ [GetItem middle, Dense feature_dim PyNone, Dot [1, 2], Softmax ''attSoftmax'',
             Dot [1, 1], Dropout (dropout1 flags)]
          @ map dense_layer (zip units activations2)
          @ [Dense (label_count flags) PyNone]"
    by (rule model_layers)
  define stages where
    "stages = zip filters (zip kernel_sizes (zip activations (zip dilation_rates strides)))"
  define finals where "finals = zip units activations2"
  define c where "c = length stages"
  define d where "d = length finals"
  note layers' = layers [folded stages_def finals_def]
  have conv: "length (filter is_Conv2D (map layer (nodes m))) = c"
    unfolding layers' c_def
    by (simp add: filter_conv_stages filter_dense_layers filter_bidirectional)
       (simp add: is_Conv2D_def)
  have bn: "length (filter is_BatchNormalization (map layer (nodes m))) = c"
    unfolding layers' c_def
    by (simp add: filter_conv_stages filter_dense_layers filter_bidirectional)
       (simp add: is_BatchNormalization_def)
  have dense: "length (filter is_Dense (map layer (nodes m))) = 1 + d + 1"
    unfolding layers' d_def
    by (simp add: filter_conv_stages filter_dense_layers filter_bidirectional)
       (simp add: is_Dense_def)
  have c: "c = min (length filters) (min (length kernel_sizes) (min (length activations)
        (min (length dilation_rates) (length strides))))"
    by (simp only: c_def stages_def length_zip)
  have d: "d = min (length units) (length activations2)"
    by (simp only: d_def finals_def length_zip)
  have cut: "model parse' lib flags = Inr m"
    if "parse' (cnn_filters flags) = Inr (take c filters)
           \<and> parse' (cnn_kernel_size flags) = Inr (take c kernel_sizes)
           \<and> parse' (cnn_act flags) = Inr (take c activations)
           \<and> parse' (cnn_dilation_rate flags) = Inr (take c dilation_rates)
           \<and> parse' (cnn_strides flags) = Inr (take c strides)
           \<and> parse' (units2 flags) = Inr (take d units)
           \<and> parse' (act2 flags) = Inr (take d activations2)" for parse'
  proof -
    have z5: "zip (take c filters) (zip (take c kernel_sizes) (zip (take c activations)
          (zip (take c dilation_rates) (take c strides))))
        = zip filters (zip kernel_sizes (zip activations (zip dilation_rates strides)))"
      by (rule zip5_take) (simp only: c_def stages_def)
    have z2: "zip (take d units) (take d activations2) = zip units activations2"
      unfolding take_zip [symmetric] by (simp add: d_def finals_def)
    from that have "model parse' lib flags = model parse lib flags"
      by (intro model_same_zips [OF p _ _ _ _ _ _ _ z5 z2]) simp_all
    with assms show ?thesis by simp
  qed
  from p c d conv bn dense cut show ?thesis by blast
qed

theorem zip_truncates_to_shortest_list_witness:
  "\<exists>m. model example_parse example_lib
         (example_flags\<lparr>cnn_filters := ''10,1,7'', units2 := ''64,32,16''\<rparr>) = Inr m
     \<and> example_parse ''10,1,7'' = Inr [PyInt 10, PyInt 1, PyInt 7]
     \<and> example_parse ''64,32,16'' = Inr [PyInt 64, PyInt 32, PyInt 16]
     \<and> length (filter is_Conv2D (map layer (nodes m))) = 2
     \<and> length (filter is_BatchNormalization (map layer (nodes m))) = 2
     \<and> length (filter is_Dense (map layer (nodes m))) = 4
     \<and> example_parse_cut ''10,1,7'' = Inr [PyInt 10, PyInt 1]
     \<and> example_parse_cut ''64,32,16'' = Inr [PyInt 64, PyInt 32]
     \<and> model example_parse_cut example_lib
         (example_flags\<lparr>cnn_filters := ''10,1,7'', units2 := ''64,32,16''\<rparr>) = Inr m"
proof -
  let ?f = "example_flags\<lparr>cnn_filters := ''10,1,7'', units2 := ''64,32,16''\<rparr>"
  from example_unequal_lists_succeeds obtain m where
    m: "model example_parse example_lib ?f = Inr m" by blast
  from zip_truncates_to_shortest_list [OF m]
  obtain filters kernel_sizes activations dilation_rates strides units activations2 c d
  where p: "example_parse (cnn_filters ?f) = Inr filters"
      "example_parse (cnn_kernel_size ?f) = Inr kernel_sizes"
      "example_parse (cnn_act ?f) = Inr activations"
      "example_parse (cnn_dilation_rate ?f) = Inr dilation_rates"
      "example_parse (cnn_strides ?f) = Inr strides"
      "example_parse (units2 ?f) = Inr units"
      "example_parse (act2 ?f) = Inr activations2"
    and c: "c = min (length filters) (min (length kernel_sizes) (min (length activations)
             (min (length dilation_rates) (length strides))))"
    and d: "d = min (length units) (length activations2)"
    and counts: "length (filter is_Conv2D (map layer (nodes m))) = c"
       "length (filter is_BatchNormalization (map layer (nodes m))) = c"
       "length (filter is_Dense (map layer (nodes m))) = 1 + d + 1"
    and cut: "\<forall>parse'.
           parse' (cnn_filters ?f) = Inr (take c filters)
           \<and> parse' (cnn_kernel_size ?f) = Inr (take c kernel_sizes)
           \<and> parse' (cnn_act ?f) = Inr (take c activations)
           \<and> parse' (cnn_dilation_rate ?f) = Inr (take c dilation_rates)
           \<and> parse' (cnn_strides ?f) = Inr (take c strides)
           \<and> parse' (units2 ?f) = Inr (take d units)
           \<and> parse' (act2 ?f) = Inr (take d activations2)
           \<longrightarrow> model parse' example_lib ?f = Inr m"
    by blast
  have lists: "filters = [PyInt 10, PyInt 1, PyInt 7]"
    "kernel_sizes = [PyTuple [PyInt 5, PyInt 1], PyTuple [PyInt 5, PyInt 1]]"
    "activations = [PyStr ''relu'', PyStr ''relu'']"
    "dilation_rates = [PyTuple [PyInt 1, PyInt 1], PyTuple [PyInt 1, PyInt 1]]"
    "strides = [PyTuple [PyInt 1, PyInt 1], PyTuple [PyInt 1, PyInt 1]]"
    "units = [PyInt 64, PyInt 32, PyInt 16]"
    "activations2 = [PyStr ''relu'', PyStr ''linear'']"
    using p example_parse_values by auto
  have c2: "c = 2" and d2: "d = 2"
    unfolding c d lists by simp_all
  have cut_values:
    "example_parse_cut (cnn_filters ?f) = Inr (take c filters)
     \<and> example_parse_cut (cnn_kernel_size ?f) = Inr (take c kernel_sizes)
     \<and> example_parse_cut (cnn_act ?f) = Inr (take c activations)
     \<and> example_parse_cut (cnn_dilation_rate ?f) = Inr (take c dilation_rates)
     \<and> example_parse_cut (cnn_strides ?f) = Inr (take c strides)
     \<and> example_parse_cut (units2 ?f) = Inr (take d units)
     \<and> example_parse_cut (act2 ?f) = Inr (take d activations2)"
    unfolding c2 d2 lists
    by (simp add: example_parse_cut_def example_parse_def example_flags_def quoted_def)
  with cut have same: "model example_parse_cut example_lib ?f = Inr m" by blast
  have cuts: "example_parse_cut ''10,1,7'' = Inr [PyInt 10, PyInt 1]"
    "example_parse_cut ''64,32,16'' = Inr [PyInt 64, PyInt 32]"
    by (simp_all add: example_parse_cut_def)
  from m counts same cuts show ?thesis
    unfolding c2 d2 by (simp add: example_parse_values)
qed

text \<open>
  Claim C10. The output of the model returned by a successful call is the output of
  the last node of the graph, a Dense layer with \<open>flags.label_count\<close> units and no
  activation. No node of the graph takes this output as input: no softmax, and no
  other layer, is applied to it. The one Softmax layer of the graph is the one of the
  attention head.
\<close>

theorem output_is_dense_logits:
  assumes "model parse lib flags = Inr m"
  shows "layer (nodes m ! producer (outputs m)) = Dense (label_count flags) PyNone
     \<and> shape (outputs m) = output_shape (nodes m ! producer (outputs m))
     \<and> Suc (producer (outputs m)) = length (nodes m)
     \<and> (\<forall>i<length (nodes m). producer (outputs m) \<notin> set (inbound (nodes m ! i)))
     \<and> filter is_Softmax (map layer (nodes m)) = [Softmax ''attSoftmax'']"
proof -
  note last = model_last_layer [OF assms]
  have unused: "\<forall>i<length (nodes m). producer (outputs m) \<notin> set (inbound (nodes m ! i))"
    using model_feeds_forward [OF assms] last(1)
    by (fastforce simp: feeds_forward_nth)
  from model_builds_stated_architecture_aux [OF assms]
  obtain rnn stages finals features middle feature_dim
  where sk: "map skeleton (nodes m) =
      stated_architecture flags rnn stages features middle feature_dim finals"
    by blast
  have softmax: "filter is_Softmax (map layer (nodes m)) = [Softmax ''attSoftmax'']"
    unfolding layer_skeleton sk stated_architecture_layers
    by (simp add: filter_Softmax) (simp add: is_Softmax_def)
  from last unused softmax show ?thesis by (simp add: skeleton_def)
qed

theorem output_is_dense_logits_witness:
  "\<exists>m. model example_parse example_lib example_flags = Inr m
     \<and> layer (nodes m ! producer (outputs m)) = Dense (PyInt 12) PyNone
     \<and> shape (outputs m) = output_shape (nodes m ! producer (outputs m))
     \<and> Suc (producer (outputs m)) = length (nodes m)
     \<and> 0 < length (nodes m)
     \<and> producer (outputs m) \<notin> set (inbound (nodes m ! 0))
     \<and> filter is_Softmax (map layer (nodes m)) = [Softmax ''attSoftmax'']"
proof -
  from example_succeeds obtain m where
    m: "model example_parse example_lib example_flags = Inr m" by blast
  have f: "label_count example_flags = PyInt 12"
    by (simp add: example_flags_def)
  from output_is_dense_logits [OF m]
  have out: "layer (nodes m ! producer (outputs m)) = Dense (PyInt 12) PyNone"
    "shape (outputs m) = output_shape (nodes m ! producer (outputs m))"
    "Suc (producer (outputs m)) = length (nodes m)"
    "filter is_Softmax (map layer (nodes m)) = [Softmax ''attSoftmax'']"
    and unused: "\<forall>i<length (nodes m). producer (outputs m) \<notin> set (inbound (nodes m ! i))"
    unfolding f by simp_all
  from out(3) have nonempty: "0 < length (nodes m)" by arith
  with unused have "producer (outputs m) \<notin> set (inbound (nodes m ! 0))" by blast
  with m out nonempty show ?thesis by blast
qed

section \<open>The hyperparameters that \<open>model_parameters\<close> registers\<close>








end
